theory Spec2Isabelle
  imports Main
begin

text \<open>
  The repository holds small HTTP services written in Go. Two of them are modelled here:
  the in-memory todo service (\<open>todos\<close>, \<open>nextID\<close> and the handlers of \<open>/todos\<close>) and
  the notes service with users, a session cookie and per-user notes in MariaDB
  (\<open>authMiddleware\<close> and the handlers of \<open>/register\<close>, \<open>/login\<close>, \<open>/logout\<close>,
  \<open>/check-auth\<close> and \<open>/notes\<close>). A handler is a function from the state it can reach
  (the package variables, or the database) and the request to the response it writes
  and the new state. Routing, JSON decoding, bcrypt, the clock and the SQL engine are
  outside the repository: a request carries the outcome of decoding its body, bcrypt
  and the time are arguments, and the tables are lists of rows under the constraints of
  the schema that \<open>main\<close> creates.
\<close>

section \<open>Strings and the library calls the handlers make\<close>

text \<open>
  Go strings are byte sequences; they are modelled as \<open>string\<close> (a list of 8-bit
  characters). The functions of this section are library calls of the handlers
  (\<open>strings.TrimPrefix\<close>, \<open>strings.TrimSpace\<close>, \<open>strconv.Atoi\<close>, \<open>strconv.Itoa\<close>).
\<close>

definition TrimPrefix :: "string \<Rightarrow> string \<Rightarrow> string" where
  "TrimPrefix s p = (if take (length p) s = p then drop (length p) s else s)"

text \<open>
  \<open>strings.TrimSpace\<close> removes leading and trailing white space as Unicode defines
  it. On the UTF-8 bytes these are the six ASCII characters tab, line feed,
  vertical tab, form feed, carriage return and space, U+0085 and U+00A0 (two bytes),
  and U+1680, U+2000 to U+200A, U+2028, U+2029, U+202F, U+205F, U+3000 (three bytes).
\<close>

definition asciiSpace :: "char \<Rightarrow> bool" where
  "asciiSpace c = (c = CHR 0x09 \<or> c = CHR 0x0A \<or> c = CHR 0x0B \<or> c = CHR 0x0C
                   \<or> c = CHR 0x0D \<or> c = CHR 0x20)"

definition space2 :: "char \<Rightarrow> char \<Rightarrow> bool" where
  "space2 a b = (a = CHR 0xC2 \<and> (b = CHR 0x85 \<or> b = CHR 0xA0))"

definition space3 :: "char \<Rightarrow> char \<Rightarrow> char \<Rightarrow> bool" where
  "space3 a b c =
     ((a = CHR 0xE1 \<and> b = CHR 0x9A \<and> c = CHR 0x80)
    \<or> (a = CHR 0xE2 \<and> b = CHR 0x80 \<and> (0x80::nat) \<le> of_char c \<and> (of_char c::nat) \<le> 0x8A)
    \<or> (a = CHR 0xE2 \<and> b = CHR 0x80 \<and> (c = CHR 0xA8 \<or> c = CHR 0xA9 \<or> c = CHR 0xAF))
    \<or> (a = CHR 0xE2 \<and> b = CHR 0x81 \<and> c = CHR 0x9F)
    \<or> (a = CHR 0xE3 \<and> b = CHR 0x80 \<and> c = CHR 0x80))"

fun trimLeft :: "string \<Rightarrow> string" where
  "trimLeft (a # b # c # s) =
     (if asciiSpace a then trimLeft (b # c # s)
      else if space2 a b then trimLeft (c # s)
      else if space3 a b c then trimLeft s
      else a # b # c # s)"
| "trimLeft [a, b] =
     (if asciiSpace a then trimLeft [b]
      else if space2 a b then []
      else [a, b])"
| "trimLeft [a] = (if asciiSpace a then [] else [a])"
| "trimLeft [] = []"

text \<open>The same scan from the end, on the reversed string (bytes of a rune reversed).\<close>

fun trimLeftRev :: "string \<Rightarrow> string" where
  "trimLeftRev (c # b # a # s) =
     (if asciiSpace c then trimLeftRev (b # a # s)
      else if space2 b c then trimLeftRev (a # s)
      else if space3 a b c then trimLeftRev s
      else c # b # a # s)"
| "trimLeftRev [c, b] =
     (if asciiSpace c then trimLeftRev [b]
      else if space2 b c then []
      else [c, b])"
| "trimLeftRev [c] = (if asciiSpace c then [] else [c])"
| "trimLeftRev [] = []"

definition TrimSpace :: "string \<Rightarrow> string" where
  "TrimSpace s = rev (trimLeftRev (rev (trimLeft s)))"

text \<open>
  \<open>strconv.Atoi\<close>: an optional sign, then one or more decimal digits, and the value
  must fit the 64-bit \<open>int\<close>; \<open>None\<close> stands for the returned error. The loop
  \<open>n = n*10 + int(ch)\<close> is \<open>digits_val\<close>.
\<close>

definition isDigit :: "char \<Rightarrow> bool" where
  "isDigit ch = ((48::nat) \<le> of_char ch \<and> (of_char ch::nat) \<le> 57)"

fun digits_val :: "int \<Rightarrow> string \<Rightarrow> int" where
  "digits_val n [] = n"
| "digits_val n (ch # s) = digits_val (n * 10 + (of_char ch - 48)) s"

definition Atoi :: "string \<Rightarrow> int option" where
  "Atoi s0 =
     (case s0 of
        [] \<Rightarrow> None
      | c0 # rest \<Rightarrow>
          (let s = (if c0 = CHR ''-'' \<or> c0 = CHR ''+'' then rest else s0) in
           if s = [] then None
           else if \<not> list_all isDigit s then None
           else
             (let n = digits_val 0 s;
                  v = (if c0 = CHR ''-'' then - n else n)
              in if v < - (2 ^ 63) \<or> 2 ^ 63 - 1 < v then None else Some v)))"

text \<open>\<open>strconv.Itoa\<close>: the decimal text of an integer, with a minus sign when negative.\<close>

fun dec :: "nat \<Rightarrow> string" where
  "dec n = (if n < 10 then [char_of (48 + n)]
            else dec (n div 10) @ [char_of (48 + n mod 10)])"

declare dec.simps [simp del]

definition Itoa :: "int \<Rightarrow> string" where
  "Itoa i = (if i < 0 then CHR ''-'' # dec (nat (- i)) else dec (nat i))"

text \<open>The wrap-around of Go's 64-bit \<open>int\<close>.\<close>

definition int64 :: "int \<Rightarrow> int" where
  "int64 x = (x + 2 ^ 63) mod 2 ^ 64 - 2 ^ 63"

section \<open>Requests and responses\<close>

text \<open>
  A request carries its method, its URL path, its cookies as parsed by
  \<open>net/http\<close> (name and value, in header order) and the outcome of
  \<open>json.NewDecoder(r.Body).Decode(&body)\<close> into the handler's body struct:
  \<open>None\<close> when decoding returns an error.
\<close>

record 'b request =
  Method :: string
  Path :: string
  Cookies :: "(string \<times> string) list"
  Body :: "'b option"

text \<open>\<open>r.Cookie(name)\<close> returns the first cookie of that name, or an error.\<close>

definition Cookie :: "'b request \<Rightarrow> string \<Rightarrow> string option" where
  "Cookie r name = map_of (Cookies r) name"

text \<open>
  A cookie handed to \<open>http.SetCookie\<close>; times are nanoseconds since the epoch, as
  \<open>time.Duration\<close> counts them.
\<close>

record cookie =
  cookie_Name :: string
  cookie_Value :: string
  cookie_Expires :: int
  cookie_HttpOnly :: bool

definition Hour :: int where
  "Hour = 3600 * 1000000000"

text \<open>
  What a handler writes: a plain-text message (\<open>http.Error\<close> appends a newline), one
  JSON object, a JSON array, the JSON \<open>null\<close> that a nil slice encodes to, or nothing.
\<close>

datatype 'a payload = NoBody | Text string | Json 'a | JsonArray "'a list" | JsonNull

record 'a response =
  status :: nat
  payload :: "'a payload"
  set_cookies :: "cookie list"

definition http_Error :: "string \<Rightarrow> nat \<Rightarrow> 'a response" where
  "http_Error msg code = \<lparr>status = code, payload = Text (msg @ [CHR 0x0A]), set_cookies = []\<rparr>"

definition WriteHeader :: "nat \<Rightarrow> 'a response" where
  "WriteHeader code = \<lparr>status = code, payload = NoBody, set_cookies = []\<rparr>"

text \<open>
  A Go slice is \<open>None\<close> when nil. \<open>append\<close> to a nil slice allocates;
  \<open>json.Encode\<close> writes \<open>null\<close> for a nil slice and an array otherwise.
\<close>

fun append_slice :: "'a list option \<Rightarrow> 'a \<Rightarrow> 'a list option" where
  "append_slice None x = Some [x]"
| "append_slice (Some xs) x = Some (xs @ [x])"

fun Encode_slice :: "'a list option \<Rightarrow> 'a payload" where
  "Encode_slice None = JsonNull"
| "Encode_slice (Some xs) = JsonArray xs"

definition StatusOK :: nat where "StatusOK = 200"
definition StatusCreated :: nat where "StatusCreated = 201"
definition StatusNoContent :: nat where "StatusNoContent = 204"
definition StatusBadRequest :: nat where "StatusBadRequest = 400"
definition StatusUnauthorized :: nat where "StatusUnauthorized = 401"
definition StatusNotFound :: nat where "StatusNotFound = 404"
definition StatusMethodNotAllowed :: nat where "StatusMethodNotAllowed = 405"
definition StatusConflict :: nat where "StatusConflict = 409"
definition StatusInternalServerError :: nat where "StatusInternalServerError = 500"

section \<open>The in-memory todo variant\<close>

text \<open>
  The package variables \<open>todos\<close> and \<open>nextID\<close> are the state; every handler takes
  it and returns it updated. Handlers run one at a time under the mutex.
\<close>

record Todo =
  todo_ID :: int
  todo_Title :: string
  todo_Done :: bool

record mem =
  todos :: "Todo list"
  nextID :: int

definition init_mem :: mem where
  "init_mem = \<lparr>todos = [], nextID = 1\<rparr>"

record create_todo_body =
  ctb_Title :: string

record update_todo_body =
  utb_Title :: string
  utb_Done :: bool

definition getTodosHandler :: "mem \<Rightarrow> 'b request \<Rightarrow> Todo response \<times> mem" where
  "getTodosHandler m r = (\<lparr>status = StatusOK, payload = JsonArray (todos m), set_cookies = []\<rparr>, m)"

definition createTodoHandler :: "mem \<Rightarrow> create_todo_body request \<Rightarrow> Todo response \<times> mem" where
  "createTodoHandler m r =
     (case Body r of
        None \<Rightarrow> (http_Error ''invalid JSON'' StatusBadRequest, m)
      | Some body \<Rightarrow>
          if TrimSpace (ctb_Title body) = [] then
            (http_Error ''title is required'' StatusBadRequest, m)
          else
            (let todo = \<lparr>todo_ID = nextID m, todo_Title = ctb_Title body, todo_Done = False\<rparr>
             in (\<lparr>status = StatusCreated, payload = Json todo, set_cookies = []\<rparr>,
                 m\<lparr>nextID := int64 (nextID m + 1), todos := todos m @ [todo]\<rparr>)))"

text \<open>The loop of \<open>updateTodoHandler\<close>: the first todo with the id is overwritten.\<close>

fun update_first :: "Todo list \<Rightarrow> int \<Rightarrow> string \<Rightarrow> bool \<Rightarrow> (Todo list \<times> Todo) option" where
  "update_first [] i title done = None"
| "update_first (t # ts) i title done =
     (if todo_ID t = i then
        (let t' = t\<lparr>todo_Title := title, todo_Done := done\<rparr> in Some (t' # ts, t'))
      else
        (case update_first ts i title done of
           None \<Rightarrow> None
         | Some (ts', t') \<Rightarrow> Some (t # ts', t')))"

definition updateTodoHandler :: "mem \<Rightarrow> update_todo_body request \<Rightarrow> Todo response \<times> mem" where
  "updateTodoHandler m r =
     (case Atoi (TrimPrefix (Path r) ''/todos/'') of
        None \<Rightarrow> (http_Error ''invalid id'' StatusBadRequest, m)
      | Some i \<Rightarrow>
          if i \<le> 0 then (http_Error ''invalid id'' StatusBadRequest, m)
          else
            (case Body r of
               None \<Rightarrow> (http_Error ''invalid JSON'' StatusBadRequest, m)
             | Some body \<Rightarrow>
                 if TrimSpace (utb_Title body) = [] then
                   (http_Error ''title is required'' StatusBadRequest, m)
                 else
                   (case update_first (todos m) i (utb_Title body) (utb_Done body) of
                      Some (ts', t') \<Rightarrow>
                        (\<lparr>status = StatusOK, payload = Json t', set_cookies = []\<rparr>, m\<lparr>todos := ts'\<rparr>)
                    | None \<Rightarrow> (http_Error ''todo not found'' StatusNotFound, m))))"

text \<open>The search loop of \<open>deleteTodoHandler\<close>: \<open>None\<close> is the index \<open>-1\<close>.\<close>

fun find_index :: "Todo list \<Rightarrow> int \<Rightarrow> nat option" where
  "find_index [] i = None"
| "find_index (t # ts) i =
     (if todo_ID t = i then Some 0 else map_option Suc (find_index ts i))"

definition deleteTodoHandler :: "mem \<Rightarrow> 'b request \<Rightarrow> Todo response \<times> mem" where
  "deleteTodoHandler m r =
     (case Atoi (TrimPrefix (Path r) ''/todos/'') of
        None \<Rightarrow> (http_Error ''invalid id'' StatusBadRequest, m)
      | Some i \<Rightarrow>
          if i \<le> 0 then (http_Error ''invalid id'' StatusBadRequest, m)
          else
            (case find_index (todos m) i of
               None \<Rightarrow> (http_Error ''todo not found'' StatusNotFound, m)
             | Some index \<Rightarrow>
                 (WriteHeader StatusNoContent,
                  m\<lparr>todos := take index (todos m) @ drop (index + 1) (todos m)\<rparr>)))"

text \<open>A history of the service: the handler calls, in the order the mutex admits them.\<close>

datatype call =
    Get "unit request"
  | Create "create_todo_body request"
  | Update "update_todo_body request"
  | Delete "unit request"

fun step :: "mem \<Rightarrow> call \<Rightarrow> Todo response \<times> mem" where
  "step m (Get r) = getTodosHandler m r"
| "step m (Create r) = createTodoHandler m r"
| "step m (Update r) = updateTodoHandler m r"
| "step m (Delete r) = deleteTodoHandler m r"

fun run :: "mem \<Rightarrow> call list \<Rightarrow> Todo response list \<times> mem" where
  "run m [] = ([], m)"
| "run m (c # cs) =
     (case step m c of (resp, m1) \<Rightarrow>
        (case run m1 cs of (rs, m2) \<Rightarrow> (resp # rs, m2)))"

text \<open>The ids handed out: those of the todos in the 201 responses, in order.\<close>

definition created_id :: "Todo response \<Rightarrow> int list" where
  "created_id resp =
     (case payload resp of
        Json t \<Rightarrow> if status resp = StatusCreated then [todo_ID t] else []
      | _ \<Rightarrow> [])"

definition created_ids :: "Todo response list \<Rightarrow> int list" where
  "created_ids rs = concat (map created_id rs)"

text \<open>
  The invariant of the state: the ids in the list increase strictly, and the counter is
  positive and above every id in the list.
\<close>

definition todos_inv :: "mem \<Rightarrow> bool" where
  "todos_inv m \<longleftrightarrow>
     sorted_wrt (<) (map todo_ID (todos m)) \<and> 1 \<le> nextID m
     \<and> list_all (\<lambda>t. todo_ID t < nextID m) (todos m)"

text \<open>A short history: two creates, the first todo deleted, one more create.\<close>

definition demo_calls :: "call list" where
  "demo_calls =
     [Create \<lparr>Method = ''POST'', Path = ''/todos'', Cookies = [], Body = Some \<lparr>ctb_Title = ''a''\<rparr>\<rparr>,
      Create \<lparr>Method = ''POST'', Path = ''/todos'', Cookies = [], Body = Some \<lparr>ctb_Title = ''b''\<rparr>\<rparr>,
      Delete \<lparr>Method = ''DELETE'', Path = ''/todos/1'', Cookies = [], Body = None\<rparr>,
      Create \<lparr>Method = ''POST'', Path = ''/todos'', Cookies = [], Body = Some \<lparr>ctb_Title = ''c''\<rparr>\<rparr>]"

section \<open>The notes service with authentication\<close>

subsection \<open>The tables\<close>

text \<open>
  The store is the two tables that \<open>main\<close> creates:
  \<open>users(id INT AUTO_INCREMENT PRIMARY KEY, username UNIQUE, password)\<close> and
  \<open>notes(id INT AUTO_INCREMENT PRIMARY KEY, user_id, title, content)\<close> with
  \<open>FOREIGN KEY (user_id) REFERENCES users(id)\<close>. Each table is the list of its rows
  with the next value of its AUTO_INCREMENT counter. A statement fails exactly when it
  violates a constraint of the schema: a duplicate username, a username or password
  longer than the 255 characters of its \<open>VARCHAR(255)\<close> column (an error under the
  strict SQL mode that MariaDB sets by default), an owner that is not a user, a counter
  beyond the largest \<open>INT\<close>. The schema names no collation for the username column,
  so how two usernames compare is the server's choice (case-insensitive by default):
  the statements that compare usernames take this comparison as the argument
  \<open>collation\<close>. The limit of the \<open>TEXT\<close> columns of \<open>notes\<close> is left to the engine.
  \<open>clientFoundRows\<close> is the flag of that name in the DSN, which \<open>main\<close> reads from the
  environment: with it an UPDATE reports the rows it matched, without it (the
  default DSN) the rows it changed.
\<close>

record User =
  user_ID :: int
  user_Username :: string
  user_Password :: string

record Note =
  note_ID :: int
  note_UserID :: int
  note_Title :: string
  note_Content :: string

record database =
  users_table :: "User list"
  users_auto :: int
  notes_table :: "Note list"
  notes_auto :: int
  clientFoundRows :: bool

definition INT_MAX :: int where
  "INT_MAX = 2147483647"

text \<open>
  The number of characters of a UTF-8 string: its bytes that are not continuation
  bytes.
\<close>

definition utf8_chars :: "string \<Rightarrow> nat" where
  "utf8_chars s = length (filter (\<lambda>c. \<not> ((0x80::nat) \<le> of_char c \<and> (of_char c::nat) < 0xC0)) s)"

text \<open>\<open>INSERT INTO users (username, password) VALUES (?, ?)\<close>; \<open>None\<close> is the error.\<close>

definition insert_user ::
  "(string \<Rightarrow> string \<Rightarrow> bool) \<Rightarrow> database \<Rightarrow> string \<Rightarrow> string \<Rightarrow> database option" where
  "insert_user collation db username password =
     (if list_ex (\<lambda>u. collation (user_Username u) username) (users_table db)
         \<or> 255 < utf8_chars username \<or> 255 < utf8_chars password
         \<or> INT_MAX < users_auto db then None
      else Some (db\<lparr>users_table := users_table db @
                         [\<lparr>user_ID = users_auto db, user_Username = username,
                           user_Password = password\<rparr>],
                     users_auto := users_auto db + 1\<rparr>))"

text \<open>\<open>SELECT id, password FROM users WHERE username = ?\<close>, scanned as one row.\<close>

definition select_user ::
  "(string \<Rightarrow> string \<Rightarrow> bool) \<Rightarrow> database \<Rightarrow> string \<Rightarrow> (int \<times> string) option" where
  "select_user collation db username =
     (case find (\<lambda>u. collation (user_Username u) username) (users_table db) of
        None \<Rightarrow> None
      | Some u \<Rightarrow> Some (user_ID u, user_Password u))"

text \<open>\<open>SELECT id, user_id, title, content FROM notes WHERE user_id = ? ORDER BY id DESC\<close>.\<close>

definition select_notes :: "database \<Rightarrow> int \<Rightarrow> Note list" where
  "select_notes db userID =
     rev (sort_key note_ID (filter (\<lambda>n. note_UserID n = userID) (notes_table db)))"

text \<open>
  \<open>INSERT INTO notes (user_id, title, content) VALUES (?, ?, ?)\<close>; the result carries
  \<open>LastInsertId\<close>.
\<close>

definition insert_note :: "database \<Rightarrow> int \<Rightarrow> string \<Rightarrow> string \<Rightarrow> (database \<times> int) option" where
  "insert_note db userID title content =
     (if userID \<notin> set (map user_ID (users_table db)) \<or> INT_MAX < notes_auto db then None
      else Some (db\<lparr>notes_table := notes_table db @
                         [\<lparr>note_ID = notes_auto db, note_UserID = userID,
                           note_Title = title, note_Content = content\<rparr>],
                     notes_auto := notes_auto db + 1\<rparr>,
                 notes_auto db))"

definition row_matches :: "int \<Rightarrow> int \<Rightarrow> Note \<Rightarrow> bool" where
  "row_matches i userID n \<longleftrightarrow> note_ID n = i \<and> note_UserID n = userID"

text \<open>
  \<open>UPDATE notes SET title = ?, content = ? WHERE id = ? AND user_id = ?\<close>; the result
  carries \<open>RowsAffected\<close>.
\<close>

definition update_note :: "database \<Rightarrow> string \<Rightarrow> string \<Rightarrow> int \<Rightarrow> int \<Rightarrow> database \<times> nat" where
  "update_note db title content i userID =
     (let matched = filter (row_matches i userID) (notes_table db);
          changed = filter (\<lambda>n. note_Title n \<noteq> title \<or> note_Content n \<noteq> content) matched
      in (db\<lparr>notes_table := map (\<lambda>n. if row_matches i userID n
                                then n\<lparr>note_Title := title, note_Content := content\<rparr>
                                else n) (notes_table db)\<rparr>,
          if clientFoundRows db then length matched else length changed))"

text \<open>\<open>DELETE FROM notes WHERE id = ? AND user_id = ?\<close>.\<close>

definition delete_note :: "database \<Rightarrow> int \<Rightarrow> int \<Rightarrow> database \<times> nat" where
  "delete_note db i userID =
     (db\<lparr>notes_table := filter (\<lambda>n. \<not> row_matches i userID n) (notes_table db)\<rparr>,
      length (filter (row_matches i userID) (notes_table db)))"

subsection \<open>Middleware and handlers\<close>

record credentials =
  cred_Username :: string
  cred_Password :: string

record note_body =
  body_Title :: string
  body_Content :: string

text \<open>
  The user id that \<open>authMiddleware\<close> puts into the request context is an argument of
  the handler it wraps.
\<close>

definition authMiddleware ::
  "(database \<Rightarrow> int \<Rightarrow> 'b request \<Rightarrow> Note response \<times> database)
   \<Rightarrow> database \<Rightarrow> 'b request \<Rightarrow> Note response \<times> database" where
  "authMiddleware next db r =
     (case Cookie r ''session_token'' of
        None \<Rightarrow> (http_Error ''unauthorized'' StatusUnauthorized, db)
      | Some v \<Rightarrow>
          (case Atoi v of
             None \<Rightarrow> (http_Error ''invalid session'' StatusUnauthorized, db)
           | Some userID \<Rightarrow> next db userID r))"

text \<open>
  \<open>bcrypt.GenerateFromPassword\<close> draws a salt, so it is an argument of the handler:
  \<open>generate password\<close> is what the call of this request returns, \<open>None\<close> for its
  error. \<open>compare hash password\<close> holds when \<open>bcrypt.CompareHashAndPassword\<close>
  returns no error.
\<close>

definition registerHandler ::
  "(string \<Rightarrow> string \<Rightarrow> bool) \<Rightarrow> (string \<Rightarrow> string option) \<Rightarrow> database
   \<Rightarrow> credentials request \<Rightarrow> Note response \<times> database" where
  "registerHandler collation generate db r =
     (if Method r \<noteq> ''POST'' then (http_Error ''method not allowed'' StatusMethodNotAllowed, db)
      else
        (case Body r of
           None \<Rightarrow> (http_Error ''invalid JSON'' StatusBadRequest, db)
         | Some body \<Rightarrow>
             (case generate (cred_Password body) of
                None \<Rightarrow> (http_Error ''server error'' StatusInternalServerError, db)
              | Some hashedPassword \<Rightarrow>
                  (case insert_user collation db (cred_Username body) hashedPassword of
                     None \<Rightarrow> (http_Error ''username already taken'' StatusConflict, db)
                   | Some db' \<Rightarrow> (WriteHeader StatusCreated, db')))))"

definition loginHandler ::
  "(string \<Rightarrow> string \<Rightarrow> bool) \<Rightarrow> (string \<Rightarrow> string \<Rightarrow> bool) \<Rightarrow> int \<Rightarrow> database
   \<Rightarrow> credentials request \<Rightarrow> Note response \<times> database" where
  "loginHandler collation compare now db r =
     (if Method r \<noteq> ''POST'' then (http_Error ''method not allowed'' StatusMethodNotAllowed, db)
      else
        (case Body r of
           None \<Rightarrow> (http_Error ''invalid JSON'' StatusBadRequest, db)
         | Some body \<Rightarrow>
             (case select_user collation db (cred_Username body) of
                None \<Rightarrow> (http_Error ''invalid credentials'' StatusUnauthorized, db)
              | Some (i, hash) \<Rightarrow>
                  if \<not> compare hash (cred_Password body) then
                    (http_Error ''invalid credentials'' StatusUnauthorized, db)
                  else
                    (\<lparr>status = StatusOK, payload = NoBody,
                      set_cookies = [\<lparr>cookie_Name = ''session_token'', cookie_Value = Itoa i,
                                      cookie_Expires = now + 24 * Hour,
                                      cookie_HttpOnly = True\<rparr>]\<rparr>, db))))"

definition logoutHandler :: "int \<Rightarrow> database \<Rightarrow> 'b request \<Rightarrow> Note response \<times> database" where
  "logoutHandler now db r =
     (\<lparr>status = StatusOK, payload = NoBody,
       set_cookies = [\<lparr>cookie_Name = ''session_token'', cookie_Value = [],
                       cookie_Expires = now + (- 1) * Hour, cookie_HttpOnly = True\<rparr>]\<rparr>, db)"

definition checkAuthHandler :: "database \<Rightarrow> 'b request \<Rightarrow> Note response \<times> database" where
  "checkAuthHandler db r =
     (case Cookie r ''session_token'' of
        None \<Rightarrow> (WriteHeader StatusUnauthorized, db)
      | Some v \<Rightarrow>
          (case Atoi v of
             None \<Rightarrow> (WriteHeader StatusUnauthorized, db)
           | Some _ \<Rightarrow> (WriteHeader StatusOK, db)))"

definition getNotesHandler :: "database \<Rightarrow> int \<Rightarrow> 'b request \<Rightarrow> Note response \<times> database" where
  "getNotesHandler db userID r =
     (let rows = select_notes db userID;
          notes = fold (\<lambda>n acc. append_slice acc n) rows None
      in (\<lparr>status = StatusOK, payload = Encode_slice notes, set_cookies = []\<rparr>, db))"

definition createNoteHandler ::
  "database \<Rightarrow> int \<Rightarrow> note_body request \<Rightarrow> Note response \<times> database" where
  "createNoteHandler db userID r =
     (case Body r of
        None \<Rightarrow> (http_Error ''invalid JSON'' StatusBadRequest, db)
      | Some body \<Rightarrow>
          (let title = TrimSpace (body_Title body) in
           if title = [] then (http_Error ''title is required'' StatusBadRequest, db)
           else
             (case insert_note db userID title (body_Content body) of
                None \<Rightarrow> (http_Error ''db error'' StatusInternalServerError, db)
              | Some (db', id64) \<Rightarrow>
                  (\<lparr>status = StatusCreated,
                    payload = Json \<lparr>note_ID = id64, note_UserID = userID, note_Title = title,
                                    note_Content = body_Content body\<rparr>,
                    set_cookies = []\<rparr>, db'))))"

definition updateNoteHandler ::
  "database \<Rightarrow> int \<Rightarrow> note_body request \<Rightarrow> Note response \<times> database" where
  "updateNoteHandler db userID r =
     (case Atoi (TrimPrefix (Path r) ''/notes/'') of
        None \<Rightarrow> (http_Error ''invalid id'' StatusBadRequest, db)
      | Some i \<Rightarrow>
          if i \<le> 0 then (http_Error ''invalid id'' StatusBadRequest, db)
          else
            (case Body r of
               None \<Rightarrow> (http_Error ''invalid JSON'' StatusBadRequest, db)
             | Some body \<Rightarrow>
                 (let title = TrimSpace (body_Title body) in
                  if title = [] then (http_Error ''title is required'' StatusBadRequest, db)
                  else
                    (case update_note db title (body_Content body) i userID of
                       (db', aff) \<Rightarrow>
                         if aff = 0 then
                           (http_Error ''note not found or unauthorized'' StatusNotFound, db')
                         else
                           (\<lparr>status = StatusOK,
                             payload = Json \<lparr>note_ID = i, note_UserID = userID,
                                             note_Title = title,
                                             note_Content = body_Content body\<rparr>,
                             set_cookies = []\<rparr>, db')))))"

definition deleteNoteHandler :: "database \<Rightarrow> int \<Rightarrow> 'b request \<Rightarrow> Note response \<times> database" where
  "deleteNoteHandler db userID r =
     (case Atoi (TrimPrefix (Path r) ''/notes/'') of
        None \<Rightarrow> (http_Error ''invalid id'' StatusBadRequest, db)
      | Some i \<Rightarrow>
          if i \<le> 0 then (http_Error ''invalid id'' StatusBadRequest, db)
          else
            (case delete_note db i userID of
               (db', aff) \<Rightarrow>
                 if aff = 0 then
                   (http_Error ''note not found or unauthorized'' StatusNotFound, db')
                 else (WriteHeader StatusNoContent, db')))"

definition notesHandler :: "database \<Rightarrow> int \<Rightarrow> note_body request \<Rightarrow> Note response \<times> database" where
  "notesHandler db userID r =
     (if Method r = ''GET'' then getNotesHandler db userID r
      else if Method r = ''POST'' then createNoteHandler db userID r
      else (http_Error ''method not allowed'' StatusMethodNotAllowed, db))"

definition noteItemHandler :: "database \<Rightarrow> int \<Rightarrow> note_body request \<Rightarrow> Note response \<times> database" where
  "noteItemHandler db userID r =
     (if Method r = ''PUT'' then updateNoteHandler db userID r
      else if Method r = ''DELETE'' then deleteNoteHandler db userID r
      else (http_Error ''method not allowed'' StatusMethodNotAllowed, db))"

text \<open>
  The invariant that the schema maintains: primary keys are distinct, positive and
  below the counter, usernames are distinct, and every note's owner is a user.
\<close>

definition db_inv :: "database \<Rightarrow> bool" where
  "db_inv db \<longleftrightarrow>
     distinct (map note_ID (notes_table db)) \<and> 1 \<le> notes_auto db
     \<and> list_all (\<lambda>n. 1 \<le> note_ID n \<and> note_ID n < notes_auto db) (notes_table db)
     \<and> distinct (map user_ID (users_table db)) \<and> 1 \<le> users_auto db
     \<and> list_all (\<lambda>u. 1 \<le> user_ID u \<and> user_ID u < users_auto db) (users_table db)
     \<and> distinct (map user_Username (users_table db))
     \<and> list_all (\<lambda>n. note_UserID n \<in> set (map user_ID (users_table db))) (notes_table db)"

subsection \<open>Sample data\<close>

text \<open>
  A database with three users and three notes, and stand-ins for the two bcrypt calls
  and for the collation, used where a statement is evaluated on a concrete input.
\<close>

definition demo_generate :: "string \<Rightarrow> string option" where
  "demo_generate password = (if 72 < length password then None else Some (''$2a$'' @ rev password))"

definition demo_compare :: "string \<Rightarrow> string \<Rightarrow> bool" where
  "demo_compare hash password \<longleftrightarrow> hash = ''$2a$'' @ rev password"

text \<open>A sample collation: usernames compare without regard to the case of ASCII letters.\<close>

definition ascii_lower :: "char \<Rightarrow> char" where
  "ascii_lower c =
     (if (65::nat) \<le> of_char c \<and> (of_char c::nat) \<le> 90 then char_of (of_char c + (32::nat)) else c)"

definition demo_collation :: "string \<Rightarrow> string \<Rightarrow> bool" where
  "demo_collation a b \<longleftrightarrow> map ascii_lower a = map ascii_lower b"

definition empty_db :: database where
  "empty_db = \<lparr>users_table = [], users_auto = 1, notes_table = [], notes_auto = 1,
               clientFoundRows = False\<rparr>"

definition demo_db :: database where
  "demo_db =
     \<lparr>users_table =
        [\<lparr>user_ID = 1, user_Username = ''alice'', user_Password = ''$2a$1wp''\<rparr>,
         \<lparr>user_ID = 2, user_Username = ''bob'', user_Password = ''$2a$2wp''\<rparr>,
         \<lparr>user_ID = 3, user_Username = ''carol'', user_Password = ''$2a$3wp''\<rparr>],
      users_auto = 4,
      notes_table =
        [\<lparr>note_ID = 1, note_UserID = 1, note_Title = ''t'', note_Content = ''c''\<rparr>,
         \<lparr>note_ID = 2, note_UserID = 2, note_Title = ''plan'', note_Content = ''secret''\<rparr>,
         \<lparr>note_ID = 3, note_UserID = 1, note_Title = ''u'', note_Content = ''d''\<rparr>],
      notes_auto = 4,
      clientFoundRows = False\<rparr>"

definition demo_request :: "string \<Rightarrow> string \<Rightarrow> 'b option \<Rightarrow> 'b request" where
  "demo_request m p b = \<lparr>Method = m, Path = p, Cookies = [], Body = b\<rparr>"

definition cookie_request :: "string \<Rightarrow> unit request" where
  "cookie_request v =
     \<lparr>Method = ''GET'', Path = ''/check-auth'', Cookies = [(''theme'', ''dark''), (''session_token'', v)],
      Body = None\<rparr>"

section \<open>Properties of the library calls\<close>

text \<open>\<open>Atoi\<close> reads back what \<open>Itoa\<close> writes, for every value of the 64-bit \<open>int\<close>.\<close>

lemma of_char_digit: "d < 10 \<Longrightarrow> (of_char (char_of (48 + d :: nat)) :: nat) = 48 + d"
  by (simp add: of_char_of)

lemma dec_digits: "list_all isDigit (dec n)"
proof (induction n rule: dec.induct)
  case (1 n)
  show ?case
  proof (cases "n < 10")
    case True
    then show ?thesis by (subst dec.simps) (simp add: isDigit_def of_char_digit)
  next
    case False
    have "n mod 10 < 10" by simp
    then have "isDigit (char_of (48 + n mod 10))"
      unfolding isDigit_def using of_char_digit [of "n mod 10"] by simp
    with False 1 show ?thesis by (subst dec.simps) simp
  qed
qed

lemma dec_nonempty: "dec n \<noteq> []"
  by (subst dec.simps) simp

lemma digits_val_append:
  "digits_val a (xs @ [c]) = digits_val a xs * 10 + (of_char c - 48)"
  by (induction xs arbitrary: a) simp_all

lemma digits_val_dec: "digits_val 0 (dec n) = int n"
proof (induction n rule: dec.induct)
  case (1 n)
  show ?case
  proof (cases "n < 10")
    case True
    have "(of_char (char_of (48 + n)) :: int) = int (of_char (char_of (48 + n)))"
      by (simp only: of_nat_of_char)
    then show ?thesis using True of_char_digit [of n]
      by (subst dec.simps) simp
  next
    case False
    have "n mod 10 < 10" by simp
    have "(of_char (char_of (48 + n mod 10)) :: int) = int (of_char (char_of (48 + n mod 10)))"
      by (simp only: of_nat_of_char)
    also have "\<dots> = int (48 + n mod 10)" using of_char_digit [of "n mod 10"] by simp
    finally have d: "(of_char (char_of (48 + n mod 10)) :: int) - 48 = int (n mod 10)" by simp
    have "digits_val 0 (dec n) = digits_val 0 (dec (n div 10)) * 10 + int (n mod 10)"
      using False d by (subst dec.simps) (simp add: digits_val_append)
    also have "\<dots> = int (n div 10) * 10 + int (n mod 10)" using 1 False by simp
    also have "\<dots> = int n" by (simp add: zmod_int zdiv_int)
    finally show ?thesis .
  qed
qed

lemma isDigit_not_sign: "isDigit c \<Longrightarrow> c \<noteq> CHR ''-'' \<and> c \<noteq> CHR ''+''"
  by (auto simp: isDigit_def)

lemma Atoi_Itoa:
  assumes "- (2 ^ 63) \<le> i" "i \<le> 2 ^ 63 - 1"
  shows "Atoi (Itoa i) = Some i"
proof (cases "i < 0")
  case True
  have "dec (nat (- i)) \<noteq> []" by (rule dec_nonempty)
  moreover have "list_all isDigit (dec (nat (- i)))" by (rule dec_digits)
  moreover have "digits_val 0 (dec (nat (- i))) = - i" using True by (simp add: digits_val_dec)
  ultimately show ?thesis using True assms
    by (simp add: Atoi_def Itoa_def Let_def)
next
  case False
  obtain c cs where d: "dec (nat i) = c # cs" using dec_nonempty [of "nat i"] by (cases "dec (nat i)") auto
  have all: "list_all isDigit (c # cs)" using dec_digits [of "nat i"] d by simp
  then have ns: "c \<noteq> CHR ''-'' \<and> c \<noteq> CHR ''+''" using isDigit_not_sign by simp
  have v: "digits_val 0 (c # cs) = i" using digits_val_dec [of "nat i"] d False by simp
  show ?thesis using False assms d ns all v
    by (simp add: Atoi_def Itoa_def Let_def)
qed

section \<open>Properties of the in-memory todo variant\<close>


lemma int64_id: "- (2 ^ 63) \<le> x \<Longrightarrow> x < 2 ^ 63 \<Longrightarrow> int64 x = x"
  unfolding int64_def by (simp add: mod_pos_pos_trivial)

lemma find_index_Some:
  "find_index ts i = Some k \<Longrightarrow> k < length ts \<and> todo_ID (ts ! k) = i"
  by (induction ts arbitrary: k) (auto split: if_splits)

lemma find_index_filter:
  "sorted_wrt (<) (map todo_ID ts) \<Longrightarrow> find_index ts i = Some k \<Longrightarrow>
   take k ts @ drop (Suc k) ts = filter (\<lambda>t. todo_ID t \<noteq> i) ts"
proof (induction ts arbitrary: k)
  case Nil
  then show ?case by simp
next
  case (Cons t ts)
  show ?case
  proof (cases "todo_ID t = i")
    case True
    then have k: "k = 0" using Cons.prems(2) by simp
    have "\<forall>u\<in>set ts. todo_ID u \<noteq> i" using Cons.prems(1) True by auto
    then have "filter (\<lambda>t. todo_ID t \<noteq> i) ts = ts" by simp
    then show ?thesis using True k by simp
  next
    case False
    then obtain j where j: "find_index ts i = Some j" "k = Suc j"
      using Cons.prems(2) by auto
    have "sorted_wrt (<) (map todo_ID ts)" using Cons.prems(1) by simp
    from Cons.IH [OF this j(1)] show ?thesis using False j(2) by simp
  qed
qed

lemma update_first_ids:
  "update_first ts i title done = Some (ts', t') \<Longrightarrow> map todo_ID ts' = map todo_ID ts"
  by (induction ts arbitrary: ts' t') (auto split: if_splits option.splits simp: Let_def)

lemma todos_inv_ids:
  "map todo_ID (todos m1) = map todo_ID (todos m) \<Longrightarrow> nextID m1 = nextID m \<Longrightarrow>
   todos_inv m \<Longrightarrow> todos_inv m1"
proof -
  assume a: "map todo_ID (todos m1) = map todo_ID (todos m)" "nextID m1 = nextID m" "todos_inv m"
  have "list_all (\<lambda>t. todo_ID t < nextID m) (todos m) = list_all (\<lambda>i. i < nextID m) (map todo_ID (todos m))"
    by (simp add: list_all_iff)
  moreover have "list_all (\<lambda>t. todo_ID t < nextID m) (todos m1) = list_all (\<lambda>i. i < nextID m) (map todo_ID (todos m1))"
    by (simp add: list_all_iff)
  ultimately show ?thesis using a by (simp add: todos_inv_def)
qed

lemma create_step:
  assumes inv: "todos_inv m" and nw: "nextID m < 2 ^ 63 - 1"
    and c: "createTodoHandler m r = (resp, m1)"
  shows "todos_inv m1 \<and> nextID m \<le> nextID m1 \<and> nextID m1 \<le> nextID m + 1
       \<and> (\<forall>i\<in>set (created_id resp). i = nextID m \<and> nextID m1 = nextID m + 1)"
proof (cases "\<exists>body. Body r = Some body \<and> TrimSpace (ctb_Title body) \<noteq> []")
  case True
  then obtain body where b: "Body r = Some body" "TrimSpace (ctb_Title body) \<noteq> []" by blast
  have pos: "1 \<le> nextID m" using inv by (simp add: todos_inv_def)
  have w: "int64 (nextID m + 1) = nextID m + 1"
    using pos nw by (intro int64_id) simp_all
  have m1: "m1 = m\<lparr>nextID := nextID m + 1,
                  todos := todos m @ [\<lparr>todo_ID = nextID m, todo_Title = ctb_Title body, todo_Done = False\<rparr>]\<rparr>"
    and resp: "resp = \<lparr>status = StatusCreated,
                  payload = Json \<lparr>todo_ID = nextID m, todo_Title = ctb_Title body, todo_Done = False\<rparr>,
                  set_cookies = []\<rparr>"
    using c b w by (simp_all add: createTodoHandler_def Let_def)
  have "todos_inv m1"
    using inv unfolding todos_inv_def m1
    by (auto simp: sorted_wrt_append list_all_iff)
  moreover have "created_id resp = [nextID m]" by (simp add: created_id_def resp)
  ultimately show ?thesis by (simp add: m1)
next
  case False
  then have "m1 = m \<and> status resp = StatusBadRequest"
    using c by (auto simp: createTodoHandler_def http_Error_def split: option.splits if_splits)
  then show ?thesis using inv
    by (simp add: created_id_def StatusBadRequest_def StatusCreated_def split: payload.splits)
qed

lemma update_step:
  assumes inv: "todos_inv m" and c: "updateTodoHandler m r = (resp, m1)"
  shows "todos_inv m1 \<and> nextID m1 = nextID m \<and> created_id resp = []"
proof -
  have ids: "map todo_ID (todos m1) = map todo_ID (todos m) \<and> nextID m1 = nextID m"
    using c
    by (auto simp: updateTodoHandler_def split: option.splits if_splits dest: update_first_ids)
  have "status resp \<noteq> StatusCreated"
    using c
    by (auto simp: updateTodoHandler_def http_Error_def StatusCreated_def StatusBadRequest_def
        StatusOK_def StatusNotFound_def split: option.splits if_splits)
  then have "created_id resp = []" by (simp add: created_id_def split: payload.splits)
  with ids inv show ?thesis using todos_inv_ids by blast
qed

lemma delete_cases:
  assumes c: "deleteTodoHandler m r = (resp, m1)"
  shows "(status resp \<noteq> StatusNoContent \<and> m1 = m \<and> payload resp \<noteq> NoBody)
       \<or> (\<exists>i k. Atoi (TrimPrefix (Path r) ''/todos/'') = Some i \<and> find_index (todos m) i = Some k
             \<and> resp = WriteHeader StatusNoContent
             \<and> m1 = m\<lparr>todos := take k (todos m) @ drop (Suc k) (todos m)\<rparr>)"
  using c
  by (auto simp: deleteTodoHandler_def http_Error_def StatusNoContent_def StatusBadRequest_def
      StatusNotFound_def split: option.splits if_splits)


lemma sorted_wrt_remove:
  assumes "sorted_wrt P xs"
  shows "sorted_wrt P (take k xs @ drop (Suc k) xs)"
proof -
  have "sorted_wrt P (take k xs @ drop k xs)" using assms by simp
  then have cross: "\<forall>x\<in>set (take k xs). \<forall>y\<in>set (drop k xs). P x y"
    unfolding sorted_wrt_append by blast
  have "drop (Suc k) xs = tl (drop k xs)" by (simp add: drop_Suc tl_drop)
  then have "set (drop (Suc k) xs) \<subseteq> set (drop k xs)"
    by (metis list.set_sel(2) subsetI tl_Nil)
  with cross assms show ?thesis
    by (auto simp: sorted_wrt_append sorted_wrt_take sorted_wrt_drop)
qed

lemma delete_step:
  assumes inv: "todos_inv m" and c: "deleteTodoHandler m r = (resp, m1)"
  shows "todos_inv m1 \<and> nextID m1 = nextID m \<and> created_id resp = []"
proof -
  from delete_cases [OF c] show ?thesis
  proof (elim disjE exE conjE)
    assume "status resp \<noteq> StatusNoContent" "m1 = m" "payload resp \<noteq> NoBody"
    moreover have "status resp \<noteq> StatusCreated"
      using c
      by (auto simp: deleteTodoHandler_def http_Error_def WriteHeader_def StatusCreated_def
          StatusBadRequest_def StatusNoContent_def StatusNotFound_def split: option.splits if_splits)
    ultimately show ?thesis using inv by (simp add: created_id_def split: payload.splits)
  next
    fix i k
    assume r: "resp = WriteHeader StatusNoContent"
      and m1: "m1 = m\<lparr>todos := take k (todos m) @ drop (Suc k) (todos m)\<rparr>"
    have s: "sorted_wrt (<) (map todo_ID (take k (todos m) @ drop (Suc k) (todos m)))"
      using inv sorted_wrt_remove [of "(<)" "map todo_ID (todos m)" k]
      by (simp add: todos_inv_def take_map drop_map)
    have "set (take k (todos m) @ drop (Suc k) (todos m)) \<subseteq> set (todos m)"
      using set_take_subset set_drop_subset by fastforce
    then have b: "list_all (\<lambda>t. todo_ID t < nextID m) (take k (todos m) @ drop (Suc k) (todos m))"
      using inv unfolding todos_inv_def list_all_iff by blast
    show ?thesis
      using s b inv unfolding m1 r
      by (simp add: todos_inv_def created_id_def WriteHeader_def)
  qed
qed

lemma step_inv:
  assumes inv: "todos_inv m" and nw: "nextID m < 2 ^ 63 - 1" and c: "step m c = (resp, m1)"
  shows "todos_inv m1 \<and> nextID m \<le> nextID m1 \<and> nextID m1 \<le> nextID m + 1
       \<and> (\<forall>i\<in>set (created_id resp). i = nextID m \<and> nextID m1 = nextID m + 1)"
proof (cases c)
  case (Get r)
  then show ?thesis using inv c
    by (auto simp: getTodosHandler_def created_id_def)
next
  case (Create r)
  then have "createTodoHandler m r = (resp, m1)" using c by simp
  from create_step [OF inv nw this] show ?thesis .
next
  case (Update r)
  then have "updateTodoHandler m r = (resp, m1)" using c by simp
  from update_step [OF inv this] show ?thesis by simp
next
  case (Delete r)
  then have "deleteTodoHandler m r = (resp, m1)" using c by simp
  from delete_step [OF inv this] show ?thesis by simp
qed

lemma run_inv:
  "todos_inv m \<Longrightarrow> nextID m + int (length cs) < 2 ^ 63 \<Longrightarrow> run m cs = (rs, m') \<Longrightarrow>
   todos_inv m' \<and> nextID m \<le> nextID m' \<and> sorted_wrt (<) (created_ids rs)
   \<and> (\<forall>i\<in>set (created_ids rs). nextID m \<le> i \<and> i < nextID m')"
proof (induction cs arbitrary: m rs m')
  case Nil
  then show ?case by (simp add: created_ids_def)
next
  case (Cons c cs)
  obtain resp m1 where s: "step m c = (resp, m1)" by (cases "step m c")
  obtain rs1 m2 where r: "run m1 cs = (rs1, m2)" by (cases "run m1 cs")
  have rs: "rs = resp # rs1" and m': "m' = m2" using Cons.prems(3) s r by simp_all
  have nw: "nextID m < 2 ^ 63 - 1" using Cons.prems(2) by simp
  from step_inv [OF Cons.prems(1) nw s]
  have i1: "todos_inv m1" and lo: "nextID m \<le> nextID m1" and hi: "nextID m1 \<le> nextID m + 1"
    and cr: "\<forall>i\<in>set (created_id resp). i = nextID m \<and> nextID m1 = nextID m + 1"
    by simp_all
  have "nextID m1 + int (length cs) < 2 ^ 63" using hi Cons.prems(2) by simp
  from Cons.IH [OF i1 this r]
  have i2: "todos_inv m2" and lo2: "nextID m1 \<le> nextID m2"
    and so: "sorted_wrt (<) (created_ids rs1)"
    and bd: "\<forall>i\<in>set (created_ids rs1). nextID m1 \<le> i \<and> i < nextID m2"
    by simp_all
  have "sorted_wrt (<) (created_id resp @ created_ids rs1)"
  proof (cases "created_id resp")
    case Nil
    then show ?thesis using so by simp
  next
    case (Cons a as)
    then have "created_id resp = [a]"
      by (auto simp: created_id_def split: payload.splits if_splits)
    moreover have "a = nextID m \<and> nextID m1 = nextID m + 1" using cr Cons by simp
    ultimately show ?thesis using so bd by (auto simp: sorted_wrt_append)
  qed
  moreover have "\<forall>i\<in>set (created_id resp @ created_ids rs1). nextID m \<le> i \<and> i < nextID m2"
    using cr bd lo lo2 by auto
  ultimately show ?case using i2 lo lo2 by (simp add: rs m' created_ids_def)
qed

lemma strictly_increasing_distinct: "sorted_wrt (<) (xs :: int list) \<Longrightarrow> distinct xs"
  by (induction xs) auto

lemma create_assigns_counter:
  assumes inv: "todos_inv m" and nw: "nextID m < 2 ^ 63 - 1"
    and c: "createTodoHandler m r = (resp, m1)" and st: "status resp = StatusCreated"
  shows "(\<exists>t. payload resp = Json t \<and> todo_ID t = nextID m \<and> todos m1 = todos m @ [t])
       \<and> nextID m1 = nextID m + 1"
proof -
  have "1 \<le> nextID m" using inv by (simp add: todos_inv_def)
  then have w: "int64 (nextID m + 1) = nextID m + 1"
    using nw by (intro int64_id) simp_all
  show ?thesis
    using c st w
    by (auto simp: createTodoHandler_def http_Error_def Let_def StatusCreated_def
        StatusBadRequest_def split: option.splits if_splits)
qed

lemma delete_keeps_order:
  assumes inv: "todos_inv m" and c: "deleteTodoHandler m r = (resp, m1)"
  shows "nextID m1 = nextID m \<and>
         (if status resp = StatusNoContent
          then todos m1 = filter (\<lambda>t. Some (todo_ID t) \<noteq> Atoi (TrimPrefix (Path r) ''/todos/'')) (todos m)
          else m1 = m)"
proof -
  from delete_cases [OF c] show ?thesis
  proof (elim disjE exE conjE)
    assume "status resp \<noteq> StatusNoContent" "m1 = m" "payload resp \<noteq> NoBody"
    then show ?thesis by simp
  next
    fix i k
    assume a: "Atoi (TrimPrefix (Path r) ''/todos/'') = Some i"
      and f: "find_index (todos m) i = Some k"
      and r: "resp = WriteHeader StatusNoContent"
      and m1: "m1 = m\<lparr>todos := take k (todos m) @ drop (Suc k) (todos m)\<rparr>"
    have "sorted_wrt (<) (map todo_ID (todos m))" using inv by (simp add: todos_inv_def)
    from find_index_filter [OF this f] show ?thesis
      by (simp add: a r m1 WriteHeader_def)
  qed
qed

text \<open>
  C10. In the in-memory todo variant, from any state that satisfies the invariant (the
  initial state does) and as long as the 64-bit counter does not wrap: a successful
  create answers with the todo whose id is the current counter value, appends it and
  increments the counter; a delete leaves the counter alone and removes the todo with
  that id, the others staying in their order; and over any history of calls the ids
  handed out increase strictly, so none is handed out twice, each is above every id
  the list held before, whatever was deleted in between, and the ids in the list stay
  strictly increasing and distinct.
\<close>

theorem todo_ids_unique_increasing:
  assumes inv: "todos_inv m" and nw: "nextID m + int (length cs) < 2 ^ 63 - 1"
  shows "(\<forall>r resp m1. createTodoHandler m r = (resp, m1) \<and> status resp = StatusCreated \<longrightarrow>
            (\<exists>t. payload resp = Json t \<and> todo_ID t = nextID m \<and> todos m1 = todos m @ [t])
            \<and> nextID m1 = nextID m + 1)
       \<and> (\<forall>(r :: unit request) resp m1. deleteTodoHandler m r = (resp, m1) \<longrightarrow>
            nextID m1 = nextID m \<and>
            (if status resp = StatusNoContent
             then todos m1 =
                    filter (\<lambda>t. Some (todo_ID t) \<noteq> Atoi (TrimPrefix (Path r) ''/todos/'')) (todos m)
             else m1 = m))
       \<and> (\<forall>rs m'. run m cs = (rs, m') \<longrightarrow>
            sorted_wrt (<) (created_ids rs) \<and> distinct (created_ids rs)
            \<and> (\<forall>i\<in>set (created_ids rs). \<forall>t\<in>set (todos m). todo_ID t < i)
            \<and> sorted_wrt (<) (map todo_ID (todos m')) \<and> distinct (map todo_ID (todos m')))"
proof (intro conjI allI impI)
  fix r resp m1
  assume a: "createTodoHandler m r = (resp, m1) \<and> status resp = StatusCreated"
  have "nextID m < 2 ^ 63 - 1" using nw by simp
  from create_assigns_counter [OF inv this] a
  show "\<exists>t. payload resp = Json t \<and> todo_ID t = nextID m \<and> todos m1 = todos m @ [t]"
    and "nextID m1 = nextID m + 1" by blast+
next
  fix r :: "unit request" and resp m1
  assume c: "deleteTodoHandler m r = (resp, m1)"
  from delete_keeps_order [OF inv c]
  show "nextID m1 = nextID m"
    and "if status resp = StatusNoContent
         then todos m1 =
                filter (\<lambda>t. Some (todo_ID t) \<noteq> Atoi (TrimPrefix (Path r) ''/todos/'')) (todos m)
         else m1 = m" by simp_all
next
  fix rs m'
  assume r: "run m cs = (rs, m')"
  have "nextID m + int (length cs) < 2 ^ 63" using nw by simp
  from run_inv [OF inv this r]
  have i': "todos_inv m'" and so: "sorted_wrt (<) (created_ids rs)"
    and bd: "\<forall>i\<in>set (created_ids rs). nextID m \<le> i \<and> i < nextID m'" by simp_all
  show "sorted_wrt (<) (created_ids rs)" by (rule so)
  show "distinct (created_ids rs)" using so by (rule strictly_increasing_distinct)
  show "\<forall>i\<in>set (created_ids rs). \<forall>t\<in>set (todos m). todo_ID t < i"
    using bd inv unfolding todos_inv_def list_all_iff by fastforce
  show "sorted_wrt (<) (map todo_ID (todos m'))" using i' by (simp add: todos_inv_def)
  then show "distinct (map todo_ID (todos m'))" by (rule strictly_increasing_distinct)
qed

theorem todo_ids_unique_increasing_witness:
  "todos_inv init_mem \<and> nextID init_mem + int (length demo_calls) < 2 ^ 63 - 1
   \<and> created_ids (fst (run init_mem demo_calls)) = [1, 2, 3]
   \<and> map todo_ID (todos (snd (run init_mem demo_calls))) = [2, 3]
   \<and> sorted_wrt (<) (created_ids (fst (run init_mem demo_calls)))
   \<and> distinct (created_ids (fst (run init_mem demo_calls)))"
proof -
  have h1: "todos_inv init_mem" by (simp add: todos_inv_def init_mem_def)
  have h2: "nextID init_mem + int (length demo_calls) < 2 ^ 63 - 1"
    by (simp add: init_mem_def demo_calls_def)
  have e1: "created_ids (fst (run init_mem demo_calls)) = [1, 2, 3]" by code_simp
  have e2: "map todo_ID (todos (snd (run init_mem demo_calls))) = [2, 3]" by code_simp
  have "run init_mem demo_calls = (fst (run init_mem demo_calls), snd (run init_mem demo_calls))"
    by simp
  with todo_ids_unique_increasing [OF h1 h2]
  have "sorted_wrt (<) (created_ids (fst (run init_mem demo_calls)))
      \<and> distinct (created_ids (fst (run init_mem demo_calls)))"
    by blast
  with h1 h2 e1 e2 show ?thesis by simp
qed

section \<open>Properties of the notes service\<close>

text \<open>
  C8. \<open>GET /check-auth\<close> answers 200 exactly when the request carries a
  \<open>session_token\<close> cookie whose value \<open>Atoi\<close> parses, whatever the integer (every
  value of the 64-bit \<open>int\<close> written in decimal is accepted, zero and negative ones
  included), and 401 otherwise; the answer is the same for every database, so no
  table is consulted, and the database is returned as it was.
\<close>

theorem check_auth_iff_cookie_parses:
  "fst (checkAuthHandler db r) =
     WriteHeader (if \<exists>v i. Cookie r ''session_token'' = Some v \<and> Atoi v = Some i
                  then StatusOK else StatusUnauthorized)
   \<and> (status (fst (checkAuthHandler db r)) = StatusOK
        \<longleftrightarrow> (\<exists>v i. Cookie r ''session_token'' = Some v \<and> Atoi v = Some i))
   \<and> (\<forall>i. - (2 ^ 63) \<le> i \<and> i \<le> 2 ^ 63 - 1 \<and> Cookie r ''session_token'' = Some (Itoa i)
          \<longrightarrow> status (fst (checkAuthHandler db r)) = StatusOK)
   \<and> fst (checkAuthHandler db r) = fst (checkAuthHandler db' r)
   \<and> snd (checkAuthHandler db r) = db"
proof -
  have a: "fst (checkAuthHandler d r) =
        WriteHeader (if \<exists>v i. Cookie r ''session_token'' = Some v \<and> Atoi v = Some i
                     then StatusOK else StatusUnauthorized)" for d
    by (auto simp: checkAuthHandler_def split: option.splits)
  have b: "status (fst (checkAuthHandler db r)) = StatusOK
        \<longleftrightarrow> (\<exists>v i. Cookie r ''session_token'' = Some v \<and> Atoi v = Some i)"
    unfolding a by (simp add: WriteHeader_def StatusOK_def StatusUnauthorized_def)
  have c: "\<forall>i. - (2 ^ 63) \<le> i \<and> i \<le> 2 ^ 63 - 1 \<and> Cookie r ''session_token'' = Some (Itoa i)
          \<longrightarrow> status (fst (checkAuthHandler db r)) = StatusOK"
    unfolding b using Atoi_Itoa by blast
  have d: "snd (checkAuthHandler db r) = db"
    by (simp add: checkAuthHandler_def split: option.splits)
  show ?thesis using a [of db] a [of db'] b c d by simp
qed

theorem check_auth_iff_cookie_parses_witness:
  "status (fst (checkAuthHandler empty_db (cookie_request ''0''))) = 200
   \<and> status (fst (checkAuthHandler empty_db (cookie_request ''-7''))) = 200
   \<and> status (fst (checkAuthHandler empty_db (cookie_request ''999''))) = 200
   \<and> status (fst (checkAuthHandler demo_db (cookie_request ''abc''))) = 401
   \<and> status (fst (checkAuthHandler demo_db (demo_request ''GET'' ''/check-auth'' (None :: unit option)))) = 401"
proof -
  have c: "Cookie (cookie_request v) ''session_token'' = Some v" for v
    by (simp add: Cookie_def cookie_request_def)
  have n: "Cookie (demo_request ''GET'' ''/check-auth'' (None :: unit option)) ''session_token'' = None"
    by (simp add: Cookie_def demo_request_def)
  have a0: "Atoi ''0'' = Some 0" and a1: "Atoi ''-7'' = Some (- 7)"
    and a2: "Atoi ''999'' = Some 999" and a3: "Atoi ''abc'' = None"
    by (simp_all add: Atoi_def isDigit_def)
  show ?thesis
    using check_auth_iff_cookie_parses [of empty_db "cookie_request ''0''" empty_db]
      check_auth_iff_cookie_parses [of empty_db "cookie_request ''-7''" empty_db]
      check_auth_iff_cookie_parses [of empty_db "cookie_request ''999''" empty_db]
      check_auth_iff_cookie_parses [of demo_db "cookie_request ''abc''" demo_db]
      check_auth_iff_cookie_parses
        [of demo_db "demo_request ''GET'' ''/check-auth'' (None :: unit option)" demo_db]
    by (simp add: c n a0 a1 a2 a3 WriteHeader_def StatusOK_def StatusUnauthorized_def)
qed

text \<open>
  C6. When the text after \<open>/notes/\<close> in the path does not parse as an integer, or
  parses to zero or a negative one, Update and Delete answer 400 \<open>invalid id\<close>
  whatever the database, the user and the body are, and return the database as it
  was: the request is rejected before any statement runs. So does \<open>noteItemHandler\<close>,
  which dispatches PUT and DELETE to them.
\<close>

theorem invalid_id_rejected_before_storage:
  assumes "Atoi (TrimPrefix (Path r) ''/notes/'') = None
           \<or> (\<exists>i. Atoi (TrimPrefix (Path r) ''/notes/'') = Some i \<and> i \<le> 0)"
  shows "updateNoteHandler db userID r = (http_Error ''invalid id'' StatusBadRequest, db)
       \<and> deleteNoteHandler db userID r = (http_Error ''invalid id'' StatusBadRequest, db)
       \<and> (Method r = ''PUT'' \<or> Method r = ''DELETE'' \<longrightarrow>
            noteItemHandler db userID r = (http_Error ''invalid id'' StatusBadRequest, db))"
proof -
  have u: "updateNoteHandler db userID r = (http_Error ''invalid id'' StatusBadRequest, db)"
    using assms by (auto simp: updateNoteHandler_def)
  have d: "deleteNoteHandler db userID r = (http_Error ''invalid id'' StatusBadRequest, db)"
    using assms by (auto simp: deleteNoteHandler_def)
  show ?thesis using u d by (simp add: noteItemHandler_def)
qed

theorem invalid_id_rejected_before_storage_witness:
  "updateNoteHandler demo_db 1
      (demo_request ''PUT'' ''/notes/abc'' (Some \<lparr>body_Title = ''x'', body_Content = ''y''\<rparr>))
     = (http_Error ''invalid id'' StatusBadRequest, demo_db)
   \<and> deleteNoteHandler demo_db 1
      (demo_request ''DELETE'' ''/notes/0'' (Some \<lparr>body_Title = ''x'', body_Content = ''y''\<rparr>))
     = (http_Error ''invalid id'' StatusBadRequest, demo_db)
   \<and> deleteNoteHandler demo_db 2
      (demo_request ''DELETE'' ''/notes/-2'' (Some \<lparr>body_Title = ''x'', body_Content = ''y''\<rparr>))
     = (http_Error ''invalid id'' StatusBadRequest, demo_db)"
proof -
  have p: "Path (demo_request m p b) = p" for m p and b :: "note_body option"
    by (simp add: demo_request_def)
  have t: "TrimPrefix ''/notes/abc'' ''/notes/'' = ''abc''"
    "TrimPrefix ''/notes/0'' ''/notes/'' = ''0''"
    "TrimPrefix ''/notes/-2'' ''/notes/'' = ''-2''"
    by (simp_all add: TrimPrefix_def)
  have a: "Atoi ''abc'' = None" "Atoi ''0'' = Some 0" "Atoi ''-2'' = Some (- 2)"
    by (simp_all add: Atoi_def isDigit_def)
  have h1: "Atoi (TrimPrefix (Path (demo_request ''PUT'' ''/notes/abc''
                (Some \<lparr>body_Title = ''x'', body_Content = ''y''\<rparr>))) ''/notes/'') = None
            \<or> (\<exists>i. Atoi (TrimPrefix (Path (demo_request ''PUT'' ''/notes/abc''
                (Some \<lparr>body_Title = ''x'', body_Content = ''y''\<rparr>))) ''/notes/'') = Some i \<and> i \<le> 0)"
    by (simp add: p t a)
  have h2: "Atoi (TrimPrefix (Path (demo_request ''DELETE'' ''/notes/0''
                (Some \<lparr>body_Title = ''x'', body_Content = ''y''\<rparr>))) ''/notes/'') = None
            \<or> (\<exists>i. Atoi (TrimPrefix (Path (demo_request ''DELETE'' ''/notes/0''
                (Some \<lparr>body_Title = ''x'', body_Content = ''y''\<rparr>))) ''/notes/'') = Some i \<and> i \<le> 0)"
    by (simp add: p t a)
  have h3: "Atoi (TrimPrefix (Path (demo_request ''DELETE'' ''/notes/-2''
                (Some \<lparr>body_Title = ''x'', body_Content = ''y''\<rparr>))) ''/notes/'') = None
            \<or> (\<exists>i. Atoi (TrimPrefix (Path (demo_request ''DELETE'' ''/notes/-2''
                (Some \<lparr>body_Title = ''x'', body_Content = ''y''\<rparr>))) ''/notes/'') = Some i \<and> i \<le> 0)"
    by (simp add: p t a)
  show ?thesis
    using invalid_id_rejected_before_storage [OF h1, of demo_db 1]
      invalid_id_rejected_before_storage [OF h2, of demo_db 1]
      invalid_id_rejected_before_storage [OF h3, of demo_db 2]
    by simp
qed

lemma select_user_None_iff:
  "select_user collation db name = None
   \<longleftrightarrow> \<not> (\<exists>u\<in>set (users_table db). collation (user_Username u) name)"
proof -
  have "find (\<lambda>u. collation (user_Username u) name) (users_table db) = None
        \<longleftrightarrow> \<not> (\<exists>u\<in>set (users_table db). collation (user_Username u) name)"
    by (auto simp: find_None_iff)
  then show ?thesis
    by (cases "find (\<lambda>u. collation (user_Username u) name) (users_table db)")
      (simp_all add: select_user_def)
qed

text \<open>
  C5. For two login requests (\<open>POST /login\<close> with a body that decodes), one naming a
  username for which the lookup in its database finds no row (no stored username
  compares equal to it under the collation of the column) and one naming a username
  whose row is found with a hash that the password does not match: both are answered
  with the same response, 401 with the body \<open>invalid credentials\<close> and no cookie, and
  the database is unchanged. A request whose username is found and whose password
  matches the stored hash is answered 200 with one \<open>session_token\<close> cookie.
\<close>

theorem login_no_enumeration:
  assumes "Method r1 = ''POST''" and "Body r1 = Some b1"
    and "Method r2 = ''POST''" and "Body r2 = Some b2"
  shows "(select_user collation db1 (cred_Username b1) = None
          \<and> select_user collation db2 (cred_Username b2) = Some (i2, h2)
          \<and> \<not> compare h2 (cred_Password b2)
          \<longrightarrow> fst (loginHandler collation compare now1 db1 r1)
                = fst (loginHandler collation compare now2 db2 r2)
              \<and> loginHandler collation compare now1 db1 r1
                  = (http_Error ''invalid credentials'' StatusUnauthorized, db1)
              \<and> loginHandler collation compare now2 db2 r2
                  = (http_Error ''invalid credentials'' StatusUnauthorized, db2))
       \<and> (select_user collation db2 (cred_Username b2) = Some (i2, h2)
          \<and> compare h2 (cred_Password b2)
          \<longrightarrow> status (fst (loginHandler collation compare now2 db2 r2)) = StatusOK
              \<and> map cookie_Name (set_cookies (fst (loginHandler collation compare now2 db2 r2)))
                  = [''session_token'']
              \<and> snd (loginHandler collation compare now2 db2 r2) = db2)
       \<and> (select_user collation db1 (cred_Username b1) = None
          \<longleftrightarrow> \<not> (\<exists>u\<in>set (users_table db1). collation (user_Username u) (cred_Username b1)))"
proof (intro conjI impI)
  assume a: "select_user collation db1 (cred_Username b1) = None
          \<and> select_user collation db2 (cred_Username b2) = Some (i2, h2)
          \<and> \<not> compare h2 (cred_Password b2)"
  then show l1: "loginHandler collation compare now1 db1 r1
                  = (http_Error ''invalid credentials'' StatusUnauthorized, db1)"
    using assms by (simp add: loginHandler_def)
  show l2: "loginHandler collation compare now2 db2 r2
                  = (http_Error ''invalid credentials'' StatusUnauthorized, db2)"
    using assms a by (simp add: loginHandler_def)
  show "fst (loginHandler collation compare now1 db1 r1)
        = fst (loginHandler collation compare now2 db2 r2)"
    by (simp add: l1 l2)
next
  assume a: "select_user collation db2 (cred_Username b2) = Some (i2, h2)
          \<and> compare h2 (cred_Password b2)"
  then show "status (fst (loginHandler collation compare now2 db2 r2)) = StatusOK"
    and "map cookie_Name (set_cookies (fst (loginHandler collation compare now2 db2 r2)))
          = [''session_token'']"
    and "snd (loginHandler collation compare now2 db2 r2) = db2"
    using assms by (simp_all add: loginHandler_def)
next
  show "select_user collation db1 (cred_Username b1) = None
          \<longleftrightarrow> \<not> (\<exists>u\<in>set (users_table db1). collation (user_Username u) (cred_Username b1))"
    by (rule select_user_None_iff)
qed

theorem login_no_enumeration_witness:
  "fst (loginHandler demo_collation demo_compare 0 demo_db
          (demo_request ''POST'' ''/login'' (Some \<lparr>cred_Username = ''mallory'', cred_Password = ''pw1''\<rparr>)))
     = fst (loginHandler demo_collation demo_compare 5 demo_db
          (demo_request ''POST'' ''/login'' (Some \<lparr>cred_Username = ''alice'', cred_Password = ''guess''\<rparr>)))
   \<and> status (fst (loginHandler demo_collation demo_compare 0 demo_db
          (demo_request ''POST'' ''/login'' (Some \<lparr>cred_Username = ''mallory'', cred_Password = ''pw1''\<rparr>)))) = 401
   \<and> status (fst (loginHandler demo_collation demo_compare 5 demo_db
          (demo_request ''POST'' ''/login'' (Some \<lparr>cred_Username = ''ALICE'', cred_Password = ''pw1''\<rparr>)))) = 200"
proof -
  let ?r1 = "demo_request ''POST'' ''/login'' (Some \<lparr>cred_Username = ''mallory'', cred_Password = ''pw1''\<rparr>)"
  let ?r2 = "demo_request ''POST'' ''/login'' (Some \<lparr>cred_Username = ''alice'', cred_Password = ''guess''\<rparr>)"
  let ?r3 = "demo_request ''POST'' ''/login'' (Some \<lparr>cred_Username = ''ALICE'', cred_Password = ''pw1''\<rparr>)"
  have m: "Method ?r1 = ''POST''" "Method ?r2 = ''POST''" "Method ?r3 = ''POST''"
    by (simp_all add: demo_request_def)
  have b: "Body ?r1 = Some \<lparr>cred_Username = ''mallory'', cred_Password = ''pw1''\<rparr>"
    "Body ?r2 = Some \<lparr>cred_Username = ''alice'', cred_Password = ''guess''\<rparr>"
    "Body ?r3 = Some \<lparr>cred_Username = ''ALICE'', cred_Password = ''pw1''\<rparr>"
    by (simp_all add: demo_request_def)
  have u: "select_user demo_collation demo_db ''mallory'' = None"
    by code_simp
  have s: "select_user demo_collation demo_db ''alice'' = Some (1, ''$2a$1wp'')"
    "select_user demo_collation demo_db ''ALICE'' = Some (1, ''$2a$1wp'')"
    by code_simp+
  have c: "\<not> demo_compare ''$2a$1wp'' ''guess''" "demo_compare ''$2a$1wp'' ''pw1''"
    by (simp_all add: demo_compare_def)
  from login_no_enumeration [OF m(1) b(1) m(2) b(2),
        of demo_collation demo_db demo_db 1 "''$2a$1wp''" demo_compare 0 5]
    login_no_enumeration [OF m(1) b(1) m(3) b(3),
        of demo_collation demo_db demo_db 1 "''$2a$1wp''" demo_compare 0 5]
  show ?thesis using u s c
    by (simp add: http_Error_def StatusUnauthorized_def StatusOK_def)
qed

text \<open>
  C7. Whenever \<open>loginHandler\<close> answers 200, its body decoded, the user row of that
  username was found with a hash the password matches, and the response sets exactly
  one cookie: name \<open>session_token\<close>, value the decimal text of that row's id (which
  \<open>Atoi\<close> reads back to the id), expiry 24 hours after the time of the call, HttpOnly.
  \<open>logoutHandler\<close> always sets the cookie of the same name with an empty value, HttpOnly,
  and an expiry one hour before the time of the call, hence already past.
\<close>

theorem session_cookie_issued_and_revoked:
  "(status (fst (loginHandler collation compare now db r)) = StatusOK \<longrightarrow>
      (\<exists>body i hash. Body r = Some body
          \<and> select_user collation db (cred_Username body) = Some (i, hash)
          \<and> compare hash (cred_Password body)
          \<and> set_cookies (fst (loginHandler collation compare now db r)) =
              [\<lparr>cookie_Name = ''session_token'', cookie_Value = Itoa i,
                cookie_Expires = now + 24 * Hour, cookie_HttpOnly = True\<rparr>]
          \<and> (- (2 ^ 63) \<le> i \<and> i \<le> 2 ^ 63 - 1 \<longrightarrow> Atoi (Itoa i) = Some i)))
   \<and> logoutHandler now db r' =
        (\<lparr>status = StatusOK, payload = NoBody,
          set_cookies = [\<lparr>cookie_Name = ''session_token'', cookie_Value = [],
                          cookie_Expires = now - Hour, cookie_HttpOnly = True\<rparr>]\<rparr>, db)
   \<and> now - Hour < now
   \<and> 24 * Hour = 24 * 60 * 60 * 1000000000"
proof (intro conjI impI)
  assume ok: "status (fst (loginHandler collation compare now db r)) = StatusOK"
  have ne: "StatusMethodNotAllowed \<noteq> StatusOK" "StatusBadRequest \<noteq> StatusOK"
    "StatusUnauthorized \<noteq> StatusOK"
    by (simp_all add: StatusMethodNotAllowed_def StatusBadRequest_def StatusUnauthorized_def
        StatusOK_def)
  from ok have m: "Method r = ''POST''"
    using ne by (auto simp: loginHandler_def http_Error_def split: if_splits)
  from ok m obtain body where b: "Body r = Some body"
    using ne by (cases "Body r") (auto simp: loginHandler_def http_Error_def)
  from ok m b obtain i hash where s: "select_user collation db (cred_Username body) = Some (i, hash)"
    using ne by (cases "select_user collation db (cred_Username body)") (auto simp: loginHandler_def http_Error_def)
  from ok m b s have c: "compare hash (cred_Password body)"
    using ne by (auto simp: loginHandler_def http_Error_def split: if_splits)
  have "set_cookies (fst (loginHandler collation compare now db r)) =
              [\<lparr>cookie_Name = ''session_token'', cookie_Value = Itoa i,
                cookie_Expires = now + 24 * Hour, cookie_HttpOnly = True\<rparr>]"
    using m b s c by (simp add: loginHandler_def)
  moreover have "- (2 ^ 63) \<le> i \<and> i \<le> 2 ^ 63 - 1 \<longrightarrow> Atoi (Itoa i) = Some i"
    using Atoi_Itoa by blast
  ultimately show "\<exists>body i hash. Body r = Some body
          \<and> select_user collation db (cred_Username body) = Some (i, hash)
          \<and> compare hash (cred_Password body)
          \<and> set_cookies (fst (loginHandler collation compare now db r)) =
              [\<lparr>cookie_Name = ''session_token'', cookie_Value = Itoa i,
                cookie_Expires = now + 24 * Hour, cookie_HttpOnly = True\<rparr>]
          \<and> (- (2 ^ 63) \<le> i \<and> i \<le> 2 ^ 63 - 1 \<longrightarrow> Atoi (Itoa i) = Some i)"
    using b s c by blast
next
  show "logoutHandler now db r' =
        (\<lparr>status = StatusOK, payload = NoBody,
          set_cookies = [\<lparr>cookie_Name = ''session_token'', cookie_Value = [],
                          cookie_Expires = now - Hour, cookie_HttpOnly = True\<rparr>]\<rparr>, db)"
    by (simp add: logoutHandler_def)
  show "now - Hour < now" by (simp add: Hour_def)
  show "24 * Hour = 24 * 60 * 60 * 1000000000" by (simp add: Hour_def)
qed

theorem session_cookie_issued_and_revoked_witness:
  "status (fst (loginHandler demo_collation demo_compare 1000 demo_db
      (demo_request ''POST'' ''/login'' (Some \<lparr>cred_Username = ''bob'', cred_Password = ''pw2''\<rparr>)))) = StatusOK
   \<and> set_cookies (fst (loginHandler demo_collation demo_compare 1000 demo_db
      (demo_request ''POST'' ''/login'' (Some \<lparr>cred_Username = ''bob'', cred_Password = ''pw2''\<rparr>)))) =
        [\<lparr>cookie_Name = ''session_token'', cookie_Value = ''2'',
          cookie_Expires = 86400000001000, cookie_HttpOnly = True\<rparr>]
   \<and> set_cookies (fst (logoutHandler 1000 demo_db (cookie_request ''2''))) =
        [\<lparr>cookie_Name = ''session_token'', cookie_Value = [],
          cookie_Expires = - 3599999999000, cookie_HttpOnly = True\<rparr>]"
proof -
  let ?r = "demo_request ''POST'' ''/login'' (Some \<lparr>cred_Username = ''bob'', cred_Password = ''pw2''\<rparr>)"
  have ok: "status (fst (loginHandler demo_collation demo_compare 1000 demo_db ?r)) = StatusOK"
    by code_simp
  have s: "select_user demo_collation demo_db ''bob'' = Some (2, ''$2a$2wp'')"
    by code_simp
  have b: "Body ?r = Some \<lparr>cred_Username = ''bob'', cred_Password = ''pw2''\<rparr>"
    by (simp add: demo_request_def)
  have i: "Itoa 2 = ''2''" by code_simp
  from session_cookie_issued_and_revoked [of demo_collation demo_compare 1000 demo_db ?r "cookie_request ''2''"] ok
  show ?thesis using s b i by (auto simp: Hour_def)
qed

subsection \<open>Facts about the tables\<close>

lemma no_row_of_other_owner:
  assumes "distinct (map note_ID ns)" and "n \<in> set ns" and "note_UserID n \<noteq> userID"
  shows "filter (row_matches (note_ID n) userID) ns = []"
proof -
  have "\<not> row_matches (note_ID n) userID m" if m: "m \<in> set ns" for m
  proof
    assume r: "row_matches (note_ID n) userID m"
    then have "note_ID m = note_ID n" by (simp add: row_matches_def)
    with assms(1,2) m have "m = n" by (meson distinct_map inj_onD)
    with r assms(3) show False by (simp add: row_matches_def)
  qed
  then show ?thesis by (simp add: filter_empty_conv)
qed

lemma no_row_of_absent_id:
  assumes "i \<notin> set (map note_ID ns)"
  shows "filter (row_matches i userID) ns = []"
  using assms by (auto simp: filter_empty_conv row_matches_def)

lemma map_unmatched:
  assumes "filter (row_matches i userID) ns = []"
  shows "map (\<lambda>n. if row_matches i userID n then f n else n) ns = ns"
    and "filter (\<lambda>n. \<not> row_matches i userID n) ns = ns"
proof -
  have a: "\<forall>n\<in>set ns. \<not> row_matches i userID n" using assms by (simp add: filter_empty_conv)
  then show "map (\<lambda>n. if row_matches i userID n then f n else n) ns = ns"
    by (simp add: map_idI)
  from a show "filter (\<lambda>n. \<not> row_matches i userID n) ns = ns" by simp
qed

lemma update_note_unmatched:
  assumes "filter (row_matches i userID) (notes_table db) = []"
  shows "update_note db title content i userID = (db, 0)"
  using assms map_unmatched(1) [OF assms] by (simp add: update_note_def Let_def)

lemma delete_note_unmatched:
  assumes "filter (row_matches i userID) (notes_table db) = []"
  shows "delete_note db i userID = (db, 0)"
  using assms map_unmatched(2) [OF assms] by (simp add: delete_note_def)

lemma map_single_row:
  assumes d: "distinct (map note_ID ns)" and k: "k < length ns" and m: "row_matches i userID (ns ! k)"
  shows "map (\<lambda>n. if row_matches i userID n then f n else n) ns = ns[k := f (ns ! k)]"
proof (rule nth_equalityI)
  show "length (map (\<lambda>n. if row_matches i userID n then f n else n) ns) = length (ns[k := f (ns ! k)])"
    by simp
next
  fix j
  assume "j < length (map (\<lambda>n. if row_matches i userID n then f n else n) ns)"
  then have j: "j < length ns" by simp
  show "map (\<lambda>n. if row_matches i userID n then f n else n) ns ! j = ns[k := f (ns ! k)] ! j"
  proof (cases "j = k")
    case True
    then show ?thesis using k m by simp
  next
    case False
    have "(map note_ID ns ! j = map note_ID ns ! k) = (j = k)"
      using d j k by (intro nth_eq_iff_index_eq) simp_all
    then have "note_ID (ns ! j) \<noteq> note_ID (ns ! k)" using j k False by simp
    then have "note_ID (ns ! j) \<noteq> i" using m by (simp add: row_matches_def)
    then have "\<not> row_matches i userID (ns ! j)" by (simp add: row_matches_def)
    then show ?thesis using j False by simp
  qed
qed

lemma fold_append_slice_Some:
  "fold (\<lambda>n acc. append_slice acc n) xs (Some ys) = Some (ys @ xs)"
  by (induction xs arbitrary: ys) simp_all

lemma fold_append_slice_None:
  "fold (\<lambda>n acc. append_slice acc n) xs None = (if xs = [] then None else Some xs)"
  by (cases xs) (simp_all add: fold_append_slice_Some)

subsection \<open>The invariant of the schema is maintained\<close>

lemma db_inv_empty: "db_inv empty_db"
  by (simp add: db_inv_def empty_db_def)

lemma insert_user_inv:
  assumes "db_inv db" and refl: "\<forall>x. collation x x"
    and "insert_user collation db username password = Some db'"
  shows "db_inv db'"
proof -
  from assms(3) have nc: "\<not> list_ex (\<lambda>u. collation (user_Username u) username) (users_table db)"
    and db': "db' = db\<lparr>users_table := users_table db @
                         [\<lparr>user_ID = users_auto db, user_Username = username,
                           user_Password = password\<rparr>],
                     users_auto := users_auto db + 1\<rparr>"
    by (auto simp: insert_user_def split: if_splits)
  have new: "username \<notin> set (map user_Username (users_table db))"
  proof
    assume "username \<in> set (map user_Username (users_table db))"
    then obtain u where "u \<in> set (users_table db)" "user_Username u = username" by auto
    with refl have "list_ex (\<lambda>u. collation (user_Username u) username) (users_table db)"
      by (auto simp: list_ex_iff)
    with nc show False by simp
  qed
  have fresh: "users_auto db \<notin> set (map user_ID (users_table db))"
    using assms(1) by (auto simp: db_inv_def list_all_iff)
  show ?thesis
    using assms(1) new fresh unfolding db' db_inv_def list_all_iff
    by (auto simp: less_imp_le)
qed

lemma insert_note_inv:
  assumes "db_inv db" and "insert_note db userID title content = Some (db', i)"
  shows "db_inv db'"
proof -
  from assms(2) have u: "userID \<in> set (map user_ID (users_table db))"
    and db': "db' = db\<lparr>notes_table := notes_table db @
                         [\<lparr>note_ID = notes_auto db, note_UserID = userID,
                           note_Title = title, note_Content = content\<rparr>],
                     notes_auto := notes_auto db + 1\<rparr>"
    by (auto simp: insert_note_def split: if_splits)
  have fresh: "notes_auto db \<notin> set (map note_ID (notes_table db))"
    using assms(1) by (auto simp: db_inv_def list_all_iff)
  show ?thesis
    using assms(1) u fresh unfolding db' db_inv_def list_all_iff
    by (auto simp: less_imp_le)
qed

lemma update_note_inv:
  assumes "db_inv db" and "update_note db title content i userID = (db', aff)"
  shows "db_inv db'"
proof -
  let ?f = "\<lambda>n. if row_matches i userID n then n\<lparr>note_Title := title, note_Content := content\<rparr> else n"
  from assms(2) have db': "db' = db\<lparr>notes_table := map ?f (notes_table db)\<rparr>"
    by (simp add: update_note_def Let_def)
  have ids: "map note_ID (map ?f (notes_table db)) = map note_ID (notes_table db)"
    by (induction "notes_table db") auto
  have "note_ID (?f n) = note_ID n \<and> note_UserID (?f n) = note_UserID n" for n by simp
  then show ?thesis
    using assms(1) ids unfolding db' db_inv_def list_all_iff
    by (auto simp del: map_map)
qed

lemma delete_note_inv:
  assumes "db_inv db" and "delete_note db i userID = (db', aff)"
  shows "db_inv db'"
proof -
  from assms(2) have db': "db' = db\<lparr>notes_table := filter (\<lambda>n. \<not> row_matches i userID n) (notes_table db)\<rparr>"
    by (simp add: delete_note_def)
  show ?thesis
    using assms(1) unfolding db' db_inv_def list_all_iff
    by (auto simp: distinct_map_filter)
qed

lemma register_keeps_inv:
  assumes "db_inv db" and "\<forall>x. collation x x"
  shows "db_inv (snd (registerHandler collation generate db rc))"
  using assms insert_user_inv [of db collation, OF assms]
  by (auto simp: registerHandler_def split: option.splits)

lemma handlers_keep_inv:
  assumes "db_inv db"
  shows "db_inv (snd (loginHandler collation compare now db rc))"
    and "db_inv (snd (logoutHandler now db r))"
    and "db_inv (snd (checkAuthHandler db r))"
    and "db_inv (snd (authMiddleware notesHandler db rn))"
    and "db_inv (snd (authMiddleware noteItemHandler db rn))"
proof -
  show "db_inv (snd (loginHandler collation compare now db rc))"
    using assms by (auto simp: loginHandler_def split: option.splits)
  show "db_inv (snd (logoutHandler now db r))"
    using assms by (simp add: logoutHandler_def)
  show "db_inv (snd (checkAuthHandler db r))"
    using assms by (auto simp: checkAuthHandler_def split: option.splits)
  have c: "db_inv (snd (createNoteHandler db u rn))" for u
    using assms insert_note_inv [OF assms]
    by (auto simp: createNoteHandler_def Let_def split: option.splits)
  have g: "db_inv (snd (getNotesHandler db u rn))" for u
    using assms by (simp add: getNotesHandler_def Let_def)
  have up: "db_inv (snd (updateNoteHandler db u rn))" for u
    using assms update_note_inv [OF assms]
    by (auto simp: updateNoteHandler_def Let_def split: option.splits prod.splits)
  have d: "db_inv (snd (deleteNoteHandler db u rn))" for u
    using assms delete_note_inv [OF assms]
    by (auto simp: deleteNoteHandler_def split: option.splits prod.splits)
  show "db_inv (snd (authMiddleware notesHandler db rn))"
    using assms c g by (auto simp: authMiddleware_def notesHandler_def split: option.splits)
  show "db_inv (snd (authMiddleware noteItemHandler db rn))"
    using assms up d by (auto simp: authMiddleware_def noteItemHandler_def split: option.splits)
qed

text \<open>
  C9. Whenever \<open>updateNoteHandler\<close> answers 200 on a database that satisfies the
  invariant of the schema: the path names a positive id, the body decoded with a title
  that is not blank, the response body is the note built from the request (that id,
  the current user, the trimmed title, the content), and the resulting database is the
  old one with exactly one row of \<open>notes\<close> replaced, a row that has this id and this
  owner, by itself with the title and the content set; its id and owner, every other
  note, the users and the counters are as before.
\<close>

theorem update_changes_one_owned_note:
  assumes inv: "db_inv db"
    and ok: "status (fst (updateNoteHandler db userID r)) = StatusOK"
  shows "\<exists>i body k.
           Atoi (TrimPrefix (Path r) ''/notes/'') = Some i \<and> 0 < i
         \<and> Body r = Some body \<and> TrimSpace (body_Title body) \<noteq> []
         \<and> fst (updateNoteHandler db userID r) =
             \<lparr>status = StatusOK,
              payload = Json \<lparr>note_ID = i, note_UserID = userID,
                              note_Title = TrimSpace (body_Title body),
                              note_Content = body_Content body\<rparr>,
              set_cookies = []\<rparr>
         \<and> k < length (notes_table db)
         \<and> note_ID (notes_table db ! k) = i \<and> note_UserID (notes_table db ! k) = userID
         \<and> snd (updateNoteHandler db userID r) =
             db\<lparr>notes_table := (notes_table db)
                  [k := (notes_table db ! k)\<lparr>note_Title := TrimSpace (body_Title body),
                                              note_Content := body_Content body\<rparr>]\<rparr>"
proof -
  have ne: "StatusBadRequest \<noteq> StatusOK" "StatusNotFound \<noteq> StatusOK"
    by (simp_all add: StatusBadRequest_def StatusNotFound_def StatusOK_def)
  from ok obtain i where i: "Atoi (TrimPrefix (Path r) ''/notes/'') = Some i"
    using ne by (cases "Atoi (TrimPrefix (Path r) ''/notes/'')")
      (auto simp: updateNoteHandler_def http_Error_def)
  from ok i have pos: "0 < i"
    using ne by (auto simp: updateNoteHandler_def http_Error_def split: if_splits)
  from ok i pos obtain body where b: "Body r = Some body"
    using ne by (cases "Body r") (auto simp: updateNoteHandler_def http_Error_def)
  let ?t = "TrimSpace (body_Title body)"
  let ?c = "body_Content body"
  from ok i pos b have t: "?t \<noteq> []"
    using ne by (auto simp: updateNoteHandler_def http_Error_def Let_def split: if_splits)
  obtain db' aff where u: "update_note db ?t ?c i userID = (db', aff)"
    by (cases "update_note db ?t ?c i userID")
  from ok i pos b t u have aff: "aff \<noteq> 0"
    using ne by (auto simp: updateNoteHandler_def http_Error_def Let_def split: if_splits)
  have "filter (row_matches i userID) (notes_table db) \<noteq> []"
  proof
    assume "filter (row_matches i userID) (notes_table db) = []"
    from update_note_unmatched [OF this] u aff show False by simp
  qed
  then obtain n where "n \<in> set (notes_table db)" "row_matches i userID n"
    by (auto simp: filter_empty_conv)
  then obtain k where k: "k < length (notes_table db)" and m: "row_matches i userID (notes_table db ! k)"
    by (auto simp: in_set_conv_nth)
  have d: "distinct (map note_ID (notes_table db))" using inv by (simp add: db_inv_def)
  have db': "db' = db\<lparr>notes_table := (notes_table db)
                  [k := (notes_table db ! k)\<lparr>note_Title := ?t, note_Content := ?c\<rparr>]\<rparr>"
    using u map_single_row [OF d k m, of "\<lambda>n. n\<lparr>note_Title := ?t, note_Content := ?c\<rparr>"]
    by (simp add: update_note_def Let_def)
  have res: "updateNoteHandler db userID r =
        (\<lparr>status = StatusOK,
          payload = Json \<lparr>note_ID = i, note_UserID = userID, note_Title = ?t, note_Content = ?c\<rparr>,
          set_cookies = []\<rparr>, db')"
    using i pos b t u aff by (simp add: updateNoteHandler_def Let_def)
  show ?thesis
    using i pos b t k m res db' by (auto simp: row_matches_def)
qed

theorem update_changes_one_owned_note_witness:
  "db_inv demo_db
   \<and> updateNoteHandler demo_db 1
       (demo_request ''PUT'' ''/notes/3'' (Some \<lparr>body_Title = '' new  '', body_Content = ''e''\<rparr>))
     = (\<lparr>status = StatusOK,
         payload = Json \<lparr>note_ID = 3, note_UserID = 1, note_Title = ''new'', note_Content = ''e''\<rparr>,
         set_cookies = []\<rparr>,
        demo_db\<lparr>notes_table :=
          [\<lparr>note_ID = 1, note_UserID = 1, note_Title = ''t'', note_Content = ''c''\<rparr>,
           \<lparr>note_ID = 2, note_UserID = 2, note_Title = ''plan'', note_Content = ''secret''\<rparr>,
           \<lparr>note_ID = 3, note_UserID = 1, note_Title = ''new'', note_Content = ''e''\<rparr>]\<rparr>)"
proof -
  let ?r = "demo_request ''PUT'' ''/notes/3'' (Some \<lparr>body_Title = '' new  '', body_Content = ''e''\<rparr>)"
  have inv: "db_inv demo_db" by (simp add: db_inv_def demo_db_def)
  have p: "Atoi (TrimPrefix (Path ?r) ''/notes/'') = Some 3"
    by (simp add: demo_request_def TrimPrefix_def Atoi_def isDigit_def)
  have t: "TrimSpace '' new  '' = ''new''"
    by (simp add: TrimSpace_def asciiSpace_def space2_def space3_def)
  have b: "Body ?r = Some \<lparr>body_Title = '' new  '', body_Content = ''e''\<rparr>"
    by (simp add: demo_request_def)
  have ok: "status (fst (updateNoteHandler demo_db 1 ?r)) = StatusOK"
    by (simp add: updateNoteHandler_def p b t update_note_def row_matches_def demo_db_def Let_def)
  from update_changes_one_owned_note [OF inv ok]
  obtain i body k where
    r: "Atoi (TrimPrefix (Path ?r) ''/notes/'') = Some i" "Body ?r = Some body"
      "fst (updateNoteHandler demo_db 1 ?r) =
         \<lparr>status = StatusOK,
          payload = Json \<lparr>note_ID = i, note_UserID = 1, note_Title = TrimSpace (body_Title body),
                          note_Content = body_Content body\<rparr>,
          set_cookies = []\<rparr>"
      "k < length (notes_table demo_db)" "note_ID (notes_table demo_db ! k) = i"
      "snd (updateNoteHandler demo_db 1 ?r) =
         demo_db\<lparr>notes_table := (notes_table demo_db)
            [k := (notes_table demo_db ! k)\<lparr>note_Title := TrimSpace (body_Title body),
                                              note_Content := body_Content body\<rparr>]\<rparr>"
    by blast
  from r(1) p have i: "i = 3" by simp
  from r(2) b have body: "body = \<lparr>body_Title = '' new  '', body_Content = ''e''\<rparr>" by simp
  have k: "k = 2"
    using r(4,5) i by (auto simp: demo_db_def less_Suc_eq nth_Cons split: nat.splits)
  have "updateNoteHandler demo_db 1 ?r
        = (fst (updateNoteHandler demo_db 1 ?r), snd (updateNoteHandler demo_db 1 ?r))" by simp
  also have "\<dots> = (\<lparr>status = StatusOK,
         payload = Json \<lparr>note_ID = 3, note_UserID = 1, note_Title = ''new'', note_Content = ''e''\<rparr>,
         set_cookies = []\<rparr>,
        demo_db\<lparr>notes_table :=
          [\<lparr>note_ID = 1, note_UserID = 1, note_Title = ''t'', note_Content = ''c''\<rparr>,
           \<lparr>note_ID = 2, note_UserID = 2, note_Title = ''plan'', note_Content = ''secret''\<rparr>,
           \<lparr>note_ID = 3, note_UserID = 1, note_Title = ''new'', note_Content = ''e''\<rparr>]\<rparr>)"
    unfolding r(3) r(6) i body k by (simp add: t demo_db_def)
  finally show ?thesis using inv by simp
qed

text \<open>
  C1, as the claim states it, fails: user 1 sends an Update for note 2, which user 2
  owns, with a blank title, and the answer is 400 BadRequest, not 404 NotFound.
\<close>

theorem update_of_foreign_note_blank_title_counterexample:
  "\<lparr>note_ID = 2, note_UserID = 2, note_Title = ''plan'', note_Content = ''secret''\<rparr>
     \<in> set (notes_table demo_db)
   \<and> Atoi (TrimPrefix (Path (demo_request ''PUT'' ''/notes/2''
        (Some \<lparr>body_Title = ''  '', body_Content = ''x''\<rparr>))) ''/notes/'') = Some 2
   \<and> updateNoteHandler demo_db 1
        (demo_request ''PUT'' ''/notes/2'' (Some \<lparr>body_Title = ''  '', body_Content = ''x''\<rparr>))
      = (http_Error ''title is required'' StatusBadRequest, demo_db)
   \<and> StatusBadRequest \<noteq> StatusNotFound"
proof -
  have p: "Atoi (TrimPrefix (Path (demo_request ''PUT'' ''/notes/2''
        (Some \<lparr>body_Title = ''  '', body_Content = ''x''\<rparr>))) ''/notes/'') = Some 2"
    by (simp add: demo_request_def TrimPrefix_def Atoi_def isDigit_def)
  have t: "TrimSpace ''  '' = []"
    by (simp add: TrimSpace_def asciiSpace_def)
  have b: "Body (demo_request ''PUT'' ''/notes/2'' (Some \<lparr>body_Title = ''  '', body_Content = ''x''\<rparr>))
           = Some \<lparr>body_Title = ''  '', body_Content = ''x''\<rparr>"
    by (simp add: demo_request_def)
  show ?thesis
    by (simp add: updateNoteHandler_def p b t StatusBadRequest_def StatusNotFound_def)
      (simp add: demo_db_def)
qed

text \<open>
  C1, amended. Let the database satisfy the invariant of the schema, let note \<open>n\<close> be
  owned by \<open>B\<close>, let \<open>A\<close> be another user and let the path name the id of \<open>n\<close>. Then
  the List of \<open>A\<close> contains only notes owned by \<open>A\<close>, so not \<open>n\<close>; a Delete by \<open>A\<close> is
  answered 404 and the database is unchanged; an Update by \<open>A\<close> leaves the database
  unchanged and is answered 404 when its body decodes with a title that is not blank,
  and 400 otherwise; and each of these answers is the one the same request gets on any
  database in which no note has that id.
\<close>

theorem notes_isolated_between_users:
  assumes inv: "db_inv db" and n: "n \<in> set (notes_table db)"
    and own: "note_UserID n = B" and ab: "A \<noteq> B"
    and path: "Atoi (TrimPrefix (Path r) ''/notes/'') = Some (note_ID n)"
    and absent: "note_ID n \<notin> set (map note_ID (notes_table db0))"
  shows "(case payload (fst (getNotesHandler db A r)) of
            JsonArray ms \<Rightarrow> n \<notin> set ms \<and> (\<forall>m\<in>set ms. note_UserID m = A)
          | JsonNull \<Rightarrow> True
          | _ \<Rightarrow> False)
       \<and> deleteNoteHandler db A r
           = (http_Error ''note not found or unauthorized'' StatusNotFound, db)
       \<and> fst (deleteNoteHandler db0 A r) = fst (deleteNoteHandler db A r)
       \<and> snd (updateNoteHandler db A r) = db
       \<and> fst (updateNoteHandler db0 A r) = fst (updateNoteHandler db A r)
       \<and> (if \<exists>body. Body r = Some body \<and> TrimSpace (body_Title body) \<noteq> []
          then fst (updateNoteHandler db A r)
                 = http_Error ''note not found or unauthorized'' StatusNotFound
          else status (fst (updateNoteHandler db A r)) = StatusBadRequest)"
proof -
  have d: "distinct (map note_ID (notes_table db))" using inv by (simp add: db_inv_def)
  have pos: "0 < note_ID n" using inv n by (auto simp: db_inv_def list_all_iff)
  have nm: "filter (row_matches (note_ID n) A) (notes_table db) = []"
    using no_row_of_other_owner [OF d n] own ab by simp
  have nm0: "filter (row_matches (note_ID n) A) (notes_table db0) = []"
    using absent by (rule no_row_of_absent_id)
  have rows: "\<forall>m\<in>set (select_notes db A). note_UserID m = A"
    by (simp add: select_notes_def)
  then have "n \<notin> set (select_notes db A)" using own ab by auto
  with rows have l: "case payload (fst (getNotesHandler db A r)) of
            JsonArray ms \<Rightarrow> n \<notin> set ms \<and> (\<forall>m\<in>set ms. note_UserID m = A)
          | JsonNull \<Rightarrow> True
          | _ \<Rightarrow> False"
    by (simp add: getNotesHandler_def Let_def fold_append_slice_None)
  have del: "deleteNoteHandler d' A r
           = (http_Error ''note not found or unauthorized'' StatusNotFound, d')"
    if "filter (row_matches (note_ID n) A) (notes_table d') = []" for d'
    using path pos delete_note_unmatched [OF that] by (simp add: deleteNoteHandler_def)
  have upd: "updateNoteHandler d' A r =
      (case Body r of
         None \<Rightarrow> (http_Error ''invalid JSON'' StatusBadRequest, d')
       | Some body \<Rightarrow>
           if TrimSpace (body_Title body) = []
           then (http_Error ''title is required'' StatusBadRequest, d')
           else (http_Error ''note not found or unauthorized'' StatusNotFound, d'))"
    if "filter (row_matches (note_ID n) A) (notes_table d') = []" for d'
    using path pos update_note_unmatched [OF that]
    by (simp add: updateNoteHandler_def Let_def split: option.splits)
  have u1: "snd (updateNoteHandler db A r) = db"
    unfolding upd [OF nm] by (simp split: option.splits)
  have u2: "fst (updateNoteHandler db0 A r) = fst (updateNoteHandler db A r)"
    unfolding upd [OF nm] upd [OF nm0] by (simp split: option.splits)
  have u3: "if \<exists>body. Body r = Some body \<and> TrimSpace (body_Title body) \<noteq> []
          then fst (updateNoteHandler db A r)
                 = http_Error ''note not found or unauthorized'' StatusNotFound
          else status (fst (updateNoteHandler db A r)) = StatusBadRequest"
    unfolding upd [OF nm] by (auto simp: http_Error_def split: option.splits)
  show ?thesis using l del [OF nm] del [OF nm0] u1 u2 u3 by simp
qed

theorem notes_isolated_between_users_witness:
  "db_inv demo_db
   \<and> payload (fst (getNotesHandler demo_db 1
        (demo_request ''PUT'' ''/notes/2'' (Some \<lparr>body_Title = ''mine'', body_Content = ''x''\<rparr>))))
      = JsonArray [\<lparr>note_ID = 3, note_UserID = 1, note_Title = ''u'', note_Content = ''d''\<rparr>,
                   \<lparr>note_ID = 1, note_UserID = 1, note_Title = ''t'', note_Content = ''c''\<rparr>]
   \<and> deleteNoteHandler demo_db 1
        (demo_request ''PUT'' ''/notes/2'' (Some \<lparr>body_Title = ''mine'', body_Content = ''x''\<rparr>))
      = (http_Error ''note not found or unauthorized'' StatusNotFound, demo_db)
   \<and> updateNoteHandler demo_db 1
        (demo_request ''PUT'' ''/notes/2'' (Some \<lparr>body_Title = ''mine'', body_Content = ''x''\<rparr>))
      = (http_Error ''note not found or unauthorized'' StatusNotFound, demo_db)
   \<and> fst (updateNoteHandler empty_db 1
        (demo_request ''PUT'' ''/notes/2'' (Some \<lparr>body_Title = ''mine'', body_Content = ''x''\<rparr>)))
      = http_Error ''note not found or unauthorized'' StatusNotFound"
proof -
  let ?r = "demo_request ''PUT'' ''/notes/2'' (Some \<lparr>body_Title = ''mine'', body_Content = ''x''\<rparr>)"
  let ?n = "\<lparr>note_ID = 2, note_UserID = 2, note_Title = ''plan'', note_Content = ''secret''\<rparr>"
  have inv: "db_inv demo_db" by (simp add: db_inv_def demo_db_def)
  have n: "?n \<in> set (notes_table demo_db)" by (simp add: demo_db_def)
  have own: "note_UserID ?n = 2" by simp
  have ab: "(1::int) \<noteq> 2" by simp
  have path: "Atoi (TrimPrefix (Path ?r) ''/notes/'') = Some (note_ID ?n)"
    by (simp add: demo_request_def TrimPrefix_def Atoi_def isDigit_def)
  have absent: "note_ID ?n \<notin> set (map note_ID (notes_table empty_db))"
    by (simp add: empty_db_def)
  have t: "TrimSpace ''mine'' = ''mine''"
    by (simp add: TrimSpace_def asciiSpace_def space2_def space3_def)
  have b: "Body ?r = Some \<lparr>body_Title = ''mine'', body_Content = ''x''\<rparr>"
    by (simp add: demo_request_def)
  have l: "payload (fst (getNotesHandler demo_db 1 ?r))
      = JsonArray [\<lparr>note_ID = 3, note_UserID = 1, note_Title = ''u'', note_Content = ''d''\<rparr>,
                   \<lparr>note_ID = 1, note_UserID = 1, note_Title = ''t'', note_Content = ''c''\<rparr>]"
    by (simp add: getNotesHandler_def select_notes_def demo_db_def Let_def)
  from notes_isolated_between_users [OF inv n own ab path absent]
  have "deleteNoteHandler demo_db 1 ?r
           = (http_Error ''note not found or unauthorized'' StatusNotFound, demo_db)"
    and "snd (updateNoteHandler demo_db 1 ?r) = demo_db"
    and "fst (updateNoteHandler empty_db 1 ?r) = fst (updateNoteHandler demo_db 1 ?r)"
    and "fst (updateNoteHandler demo_db 1 ?r)
           = http_Error ''note not found or unauthorized'' StatusNotFound"
    using b t by simp_all
  then show ?thesis using inv l by (simp add: prod_eq_iff)
qed

text \<open>
  C3, as the claim states it, fails: the note in the response carries the trimmed
  title, not the title of the request. A Create with the title \<open>'' a''\<close> is answered
  with a note whose title is \<open>''a''\<close>.
\<close>

theorem create_returns_trimmed_title_counterexample:
  "createNoteHandler demo_db 1
      (demo_request ''POST'' ''/notes'' (Some \<lparr>body_Title = '' a'', body_Content = ''c''\<rparr>))
     = (\<lparr>status = StatusCreated,
         payload = Json \<lparr>note_ID = 4, note_UserID = 1, note_Title = ''a'', note_Content = ''c''\<rparr>,
         set_cookies = []\<rparr>,
        demo_db\<lparr>notes_table := notes_table demo_db @
                   [\<lparr>note_ID = 4, note_UserID = 1, note_Title = ''a'', note_Content = ''c''\<rparr>],
                notes_auto := 5\<rparr>)
   \<and> ''a'' \<noteq> '' a''"
proof -
  have t: "TrimSpace '' a'' = ''a''"
    by (simp add: TrimSpace_def asciiSpace_def space2_def space3_def)
  have b: "Body (demo_request ''POST'' ''/notes'' (Some \<lparr>body_Title = '' a'', body_Content = ''c''\<rparr>))
           = Some \<lparr>body_Title = '' a'', body_Content = ''c''\<rparr>"
    by (simp add: demo_request_def)
  have i: "insert_note demo_db 1 ''a'' ''c'' =
      Some (demo_db\<lparr>notes_table := notes_table demo_db @
                   [\<lparr>note_ID = 4, note_UserID = 1, note_Title = ''a'', note_Content = ''c''\<rparr>],
                notes_auto := 5\<rparr>, 4)"
    by (simp add: insert_note_def demo_db_def INT_MAX_def)
  show ?thesis by (simp add: createNoteHandler_def b t i Let_def)
qed

text \<open>
  C3, amended. For a Create whose body decodes: if the title is empty after trimming,
  the answer is 400 and the database is unchanged; otherwise, when the current user is
  a row of \<open>users\<close> and the id counter has not passed the largest \<open>INT\<close>, the answer
  is 201 with the note that was appended to the table: its id is the counter value,
  which is positive and the id of no other note, its owner is the current user, its
  title is the title of the request trimmed, and its content is that of the request.
\<close>

theorem create_validates_title_and_owns_note:
  assumes body: "Body r = Some body" and inv: "db_inv db"
  shows "(TrimSpace (body_Title body) = [] \<longrightarrow>
            createNoteHandler db userID r = (http_Error ''title is required'' StatusBadRequest, db))
       \<and> (TrimSpace (body_Title body) \<noteq> [] \<and> userID \<in> set (map user_ID (users_table db))
            \<and> notes_auto db \<le> INT_MAX \<longrightarrow>
            createNoteHandler db userID r =
              (\<lparr>status = StatusCreated,
                payload = Json \<lparr>note_ID = notes_auto db, note_UserID = userID,
                                note_Title = TrimSpace (body_Title body),
                                note_Content = body_Content body\<rparr>,
                set_cookies = []\<rparr>,
               db\<lparr>notes_table := notes_table db @
                      [\<lparr>note_ID = notes_auto db, note_UserID = userID,
                        note_Title = TrimSpace (body_Title body),
                        note_Content = body_Content body\<rparr>],
                  notes_auto := notes_auto db + 1\<rparr>)
            \<and> 0 < notes_auto db \<and> notes_auto db \<notin> set (map note_ID (notes_table db)))"
proof (intro conjI impI)
  assume "TrimSpace (body_Title body) = []"
  then show "createNoteHandler db userID r = (http_Error ''title is required'' StatusBadRequest, db)"
    using body by (simp add: createNoteHandler_def)
next
  assume a: "TrimSpace (body_Title body) \<noteq> [] \<and> userID \<in> set (map user_ID (users_table db))
            \<and> notes_auto db \<le> INT_MAX"
  then show "createNoteHandler db userID r =
              (\<lparr>status = StatusCreated,
                payload = Json \<lparr>note_ID = notes_auto db, note_UserID = userID,
                                note_Title = TrimSpace (body_Title body),
                                note_Content = body_Content body\<rparr>,
                set_cookies = []\<rparr>,
               db\<lparr>notes_table := notes_table db @
                      [\<lparr>note_ID = notes_auto db, note_UserID = userID,
                        note_Title = TrimSpace (body_Title body),
                        note_Content = body_Content body\<rparr>],
                  notes_auto := notes_auto db + 1\<rparr>)"
    using body by (simp add: createNoteHandler_def insert_note_def Let_def)
  show "0 < notes_auto db" using inv by (simp add: db_inv_def)
  show "notes_auto db \<notin> set (map note_ID (notes_table db))"
    using inv by (auto simp: db_inv_def list_all_iff)
qed

theorem create_validates_title_and_owns_note_witness:
  "db_inv demo_db
   \<and> createNoteHandler demo_db 2
       (demo_request ''POST'' ''/notes'' (Some \<lparr>body_Title = '' '', body_Content = ''c''\<rparr>))
     = (http_Error ''title is required'' StatusBadRequest, demo_db)
   \<and> createNoteHandler demo_db 2
       (demo_request ''POST'' ''/notes'' (Some \<lparr>body_Title = ''t'', body_Content = ''c''\<rparr>))
     = (\<lparr>status = StatusCreated,
         payload = Json \<lparr>note_ID = 4, note_UserID = 2, note_Title = ''t'', note_Content = ''c''\<rparr>,
         set_cookies = []\<rparr>,
        demo_db\<lparr>notes_table := notes_table demo_db @
                   [\<lparr>note_ID = 4, note_UserID = 2, note_Title = ''t'', note_Content = ''c''\<rparr>],
                notes_auto := 5\<rparr>)"
proof -
  let ?r1 = "demo_request ''POST'' ''/notes'' (Some \<lparr>body_Title = '' '', body_Content = ''c''\<rparr>)"
  let ?r2 = "demo_request ''POST'' ''/notes'' (Some \<lparr>body_Title = ''t'', body_Content = ''c''\<rparr>)"
  have inv: "db_inv demo_db" by (simp add: db_inv_def demo_db_def)
  have b1: "Body ?r1 = Some \<lparr>body_Title = '' '', body_Content = ''c''\<rparr>"
    and b2: "Body ?r2 = Some \<lparr>body_Title = ''t'', body_Content = ''c''\<rparr>"
    by (simp_all add: demo_request_def)
  have t: "TrimSpace '' '' = []" "TrimSpace ''t'' = ''t''"
    by (simp_all add: TrimSpace_def asciiSpace_def space2_def space3_def)
  have u: "(2::int) \<in> set (map user_ID (users_table demo_db))" "notes_auto demo_db \<le> INT_MAX"
    "notes_auto demo_db = 4"
    by (simp_all add: demo_db_def INT_MAX_def)
  from create_validates_title_and_owns_note [OF b1 inv, of 2]
    create_validates_title_and_owns_note [OF b2 inv, of 2]
  show ?thesis using inv t u by simp
qed

text \<open>
  C4, as the claim states it, fails: \<open>registerHandler\<close> does not look at the
  username before the INSERT, so an empty username that no row has yet is accepted:
  the answer is 201 and a user with the empty name is stored.
\<close>

theorem register_accepts_empty_username_counterexample:
  "registerHandler demo_collation demo_generate demo_db
      (demo_request ''POST'' ''/register'' (Some \<lparr>cred_Username = [], cred_Password = ''pw''\<rparr>))
     = (WriteHeader StatusCreated,
        demo_db\<lparr>users_table := users_table demo_db @
                   [\<lparr>user_ID = 4, user_Username = [], user_Password = ''$2a$wp''\<rparr>],
                users_auto := 5\<rparr>)
   \<and> StatusCreated \<noteq> StatusConflict"
proof -
  have b: "Body (demo_request ''POST'' ''/register'' (Some \<lparr>cred_Username = [], cred_Password = ''pw''\<rparr>))
           = Some \<lparr>cred_Username = [], cred_Password = ''pw''\<rparr>"
    and m: "Method (demo_request ''POST'' ''/register''
              (Some \<lparr>cred_Username = [], cred_Password = ''pw''\<rparr>)) = ''POST''"
    by (simp_all add: demo_request_def)
  have g: "demo_generate ''pw'' = Some ''$2a$wp''" by (simp add: demo_generate_def)
  have i: "insert_user demo_collation demo_db [] ''$2a$wp'' =
      Some (demo_db\<lparr>users_table := users_table demo_db @
                   [\<lparr>user_ID = 4, user_Username = [], user_Password = ''$2a$wp''\<rparr>],
                users_auto := 5\<rparr>)"
    by (simp add: insert_user_def demo_db_def INT_MAX_def demo_collation_def utf8_chars_def)
  show ?thesis
    by (simp add: registerHandler_def b m g i StatusCreated_def StatusConflict_def)
qed

lemma insert_user_cases:
  "insert_user collation db username password =
     (if (\<exists>u\<in>set (users_table db). collation (user_Username u) username)
         \<or> 255 < utf8_chars username \<or> 255 < utf8_chars password \<or> INT_MAX < users_auto db
      then None
      else Some (db\<lparr>users_table := users_table db @
                         [\<lparr>user_ID = users_auto db, user_Username = username,
                           user_Password = password\<rparr>],
                     users_auto := users_auto db + 1\<rparr>))"
  by (simp add: insert_user_def list_ex_iff)

text \<open>
  C4, amended. bcrypt is a library: \<open>generate\<close> stands for
  \<open>bcrypt.GenerateFromPassword\<close>, the one-way salted hash that the handler calls, of
  which only this is assumed: what it returns for a password is never that password.
  For \<open>POST /register\<close> with a body that decodes: when bcrypt returns an error (a
  password too long for it) the answer is 500 and nothing is stored. When it returns a
  hash: a username that compares equal to the username of a row, under the collation of
  the column, is answered 409 and nothing is stored; a username that compares equal to
  none (the empty one included) and fits the column is answered 201, with one row
  appended that holds the username and the hash; whatever the username, the answer is
  201 or it is 409 with the database unchanged, and every row of the resulting table is
  a row that was there before or holds this username with the hash as its password,
  which is not the password of the request.
\<close>

theorem register_conflict_and_stored_hash:
  assumes "Method r = ''POST''" and "Body r = Some body"
    and bcrypt: "\<forall>p h. generate p = Some h \<longrightarrow> h \<noteq> p"
  shows "(generate (cred_Password body) = None \<longrightarrow>
            registerHandler collation generate db r
              = (http_Error ''server error'' StatusInternalServerError, db))
       \<and> (\<forall>hashedPassword. generate (cred_Password body) = Some hashedPassword \<longrightarrow>
            ((\<exists>u\<in>set (users_table db). collation (user_Username u) (cred_Username body)) \<longrightarrow>
               registerHandler collation generate db r
                 = (http_Error ''username already taken'' StatusConflict, db))
          \<and> (\<not> (\<exists>u\<in>set (users_table db). collation (user_Username u) (cred_Username body))
               \<and> utf8_chars (cred_Username body) \<le> 255 \<and> utf8_chars hashedPassword \<le> 255
               \<and> users_auto db \<le> INT_MAX \<longrightarrow>
               registerHandler collation generate db r
                 = (WriteHeader StatusCreated,
                    db\<lparr>users_table := users_table db @
                          [\<lparr>user_ID = users_auto db, user_Username = cred_Username body,
                            user_Password = hashedPassword\<rparr>],
                       users_auto := users_auto db + 1\<rparr>))
          \<and> (status (fst (registerHandler collation generate db r)) = StatusCreated
               \<or> registerHandler collation generate db r
                    = (http_Error ''username already taken'' StatusConflict, db))
          \<and> (\<forall>u\<in>set (users_table (snd (registerHandler collation generate db r))).
               u \<in> set (users_table db)
               \<or> (user_Username u = cred_Username body \<and> user_Password u = hashedPassword
                   \<and> user_Password u \<noteq> cred_Password body)))"
proof (intro conjI allI impI)
  assume "generate (cred_Password body) = None"
  then show "registerHandler collation generate db r
              = (http_Error ''server error'' StatusInternalServerError, db)"
    using assms(1,2) by (simp add: registerHandler_def)
next
  fix hashedPassword
  assume gen: "generate (cred_Password body) = Some hashedPassword"
  have ne: "hashedPassword \<noteq> cred_Password body" using gen bcrypt by blast
  let ?dup = "\<exists>u\<in>set (users_table db). collation (user_Username u) (cred_Username body)"
  let ?fail = "?dup \<or> 255 < utf8_chars (cred_Username body) \<or> 255 < utf8_chars hashedPassword
               \<or> INT_MAX < users_auto db"
  let ?db' = "db\<lparr>users_table := users_table db @
                       [\<lparr>user_ID = users_auto db, user_Username = cred_Username body,
                         user_Password = hashedPassword\<rparr>],
                    users_auto := users_auto db + 1\<rparr>"
  have res: "registerHandler collation generate db r =
        (if ?fail then (http_Error ''username already taken'' StatusConflict, db)
         else (WriteHeader StatusCreated, ?db'))"
    using assms(1,2) gen by (simp add: registerHandler_def insert_user_cases)
  show "registerHandler collation generate db r
          = (http_Error ''username already taken'' StatusConflict, db)" if "?dup"
    unfolding res using that by simp
  show "registerHandler collation generate db r = (WriteHeader StatusCreated, ?db')"
    if "\<not> ?dup \<and> utf8_chars (cred_Username body) \<le> 255 \<and> utf8_chars hashedPassword \<le> 255
            \<and> users_auto db \<le> INT_MAX"
    unfolding res using that by (simp add: not_less)
  show "status (fst (registerHandler collation generate db r)) = StatusCreated
            \<or> registerHandler collation generate db r
                 = (http_Error ''username already taken'' StatusConflict, db)"
    unfolding res by (simp add: WriteHeader_def)
  show "\<forall>u\<in>set (users_table (snd (registerHandler collation generate db r))).
            u \<in> set (users_table db)
            \<or> (user_Username u = cred_Username body \<and> user_Password u = hashedPassword
                \<and> user_Password u \<noteq> cred_Password body)"
    unfolding res using ne by auto
qed

theorem register_conflict_and_stored_hash_witness:
  "registerHandler demo_collation demo_generate demo_db
      (demo_request ''POST'' ''/register'' (Some \<lparr>cred_Username = ''bob'', cred_Password = ''pw9''\<rparr>))
     = (http_Error ''username already taken'' StatusConflict, demo_db)
   \<and> registerHandler demo_collation demo_generate demo_db
      (demo_request ''POST'' ''/register'' (Some \<lparr>cred_Username = ''dave'', cred_Password = ''pw4''\<rparr>))
     = (WriteHeader StatusCreated,
        demo_db\<lparr>users_table := users_table demo_db @
                   [\<lparr>user_ID = 4, user_Username = ''dave'', user_Password = ''$2a$4wp''\<rparr>],
                users_auto := 5\<rparr>)
   \<and> ''$2a$4wp'' \<noteq> ''pw4''"
proof -
  let ?r1 = "demo_request ''POST'' ''/register'' (Some \<lparr>cred_Username = ''bob'', cred_Password = ''pw9''\<rparr>)"
  let ?r2 = "demo_request ''POST'' ''/register'' (Some \<lparr>cred_Username = ''dave'', cred_Password = ''pw4''\<rparr>)"
  have m: "Method ?r1 = ''POST''" "Method ?r2 = ''POST''" by (simp_all add: demo_request_def)
  have b1: "Body ?r1 = Some \<lparr>cred_Username = ''bob'', cred_Password = ''pw9''\<rparr>"
    and b2: "Body ?r2 = Some \<lparr>cred_Username = ''dave'', cred_Password = ''pw4''\<rparr>"
    by (simp_all add: demo_request_def)
  have g1: "demo_generate (cred_Password \<lparr>cred_Username = ''bob'', cred_Password = ''pw9''\<rparr>)
            = Some ''$2a$9wp''"
    and g2: "demo_generate (cred_Password \<lparr>cred_Username = ''dave'', cred_Password = ''pw4''\<rparr>)
            = Some ''$2a$4wp''"
    by (simp_all add: demo_generate_def)
  have bc: "\<forall>p h. demo_generate p = Some h \<longrightarrow> h \<noteq> p"
  proof (intro allI impI)
    fix p h
    assume "demo_generate p = Some h"
    then have "length h = 4 + length p" by (auto simp: demo_generate_def split: if_splits)
    then show "h \<noteq> p" by auto
  qed
  have d1: "\<exists>u\<in>set (users_table demo_db). demo_collation (user_Username u) ''bob''"
    by (simp add: demo_db_def demo_collation_def)
  have d2: "\<not> (\<exists>u\<in>set (users_table demo_db). demo_collation (user_Username u) ''dave'')"
    by code_simp
  have l: "utf8_chars ''dave'' \<le> 255" "utf8_chars ''$2a$4wp'' \<le> 255"
    "users_auto demo_db \<le> INT_MAX" "users_auto demo_db = 4"
    by (simp_all add: utf8_chars_def demo_db_def INT_MAX_def)
  from register_conflict_and_stored_hash [OF m(1) b1 bc, of demo_collation demo_db]
    register_conflict_and_stored_hash [OF m(2) b2 bc, of demo_collation demo_db]
  show ?thesis using g1 g2 d1 d2 l by simp
qed

lemma list_returns_own_notes_newest_first:
  "getNotesHandler db userID r =
     (\<lparr>status = StatusOK,
       payload = (if select_notes db userID = [] then JsonNull
                  else JsonArray (select_notes db userID)),
       set_cookies = []\<rparr>, db)
   \<and> set (select_notes db userID) = {n \<in> set (notes_table db). note_UserID n = userID}
   \<and> sorted (rev (map note_ID (select_notes db userID)))"
proof -
  have "sorted (map note_ID (sort_key note_ID (filter (\<lambda>n. note_UserID n = userID) (notes_table db))))"
    by (rule sorted_sort_key)
  then have "sorted (rev (map note_ID (select_notes db userID)))"
    by (simp add: select_notes_def rev_map)
  moreover have "set (select_notes db userID) = {n \<in> set (notes_table db). note_UserID n = userID}"
    by (auto simp: select_notes_def)
  ultimately show ?thesis
    by (simp add: getNotesHandler_def Let_def fold_append_slice_None)
qed

text \<open>
  C2 does not hold for a user without notes: \<open>var notes []Note\<close> stays nil when the
  query returns no row, and \<open>json.Encode\<close> writes \<open>null\<close> for a nil slice. User 3 owns
  no note in the sample database; the List answers 200 with the body \<open>null\<close>, not an
  empty array.
\<close>

theorem list_of_user_without_notes_is_null:
  "getNotesHandler demo_db 3 (demo_request ''GET'' ''/notes'' (None :: note_body option))
     = (\<lparr>status = StatusOK, payload = JsonNull, set_cookies = []\<rparr>, demo_db)
   \<and> (JsonNull :: Note payload) \<noteq> JsonArray []
   \<and> getTodosHandler init_mem (demo_request ''GET'' ''/todos'' (None :: unit option))
     = (\<lparr>status = StatusOK, payload = JsonArray [], set_cookies = []\<rparr>, init_mem)"
  by (simp add: getNotesHandler_def select_notes_def demo_db_def Let_def getTodosHandler_def
      init_mem_def)

end
